theory Spec2Isabelle
  imports Complex_Main "HOL-Library.AList"
begin

section \<open>Conventions of the embedding\<close>

text \<open>
  The program is a Python trading bot. Its numbers are Python floats; the embedding
  computes with \<^typ>\<open>real\<close>, so every arithmetic step is exact and rounding of IEEE
  doubles is not part of the model. Python dictionaries that the code iterates over
  (\<open>open_positions\<close>) are association lists in insertion order, updated with
  \<^const>\<open>AList.update\<close> (replace in place, else append) and \<^const>\<open>AList.delete\<close>.
  Values that Python reads from the wall clock (\<open>time.time()\<close>, \<open>date.today()\<close>) or from
  a random source (\<open>uuid.uuid4()\<close>) are explicit arguments. Logging, listener callbacks,
  Telegram messages and the write-through of the state document to disk have no effect
  on the values modelled here and are left out. Strings are byte strings; \<open>upper\<close>,
  \<open>lower\<close> and \<open>strip\<close> are modelled on ASCII.
\<close>

subsection \<open>Strings\<close>

definition to_upper :: "char \<Rightarrow> char" where
  "to_upper c = (let n = (of_char c :: nat) in
     if 97 \<le> n \<and> n \<le> 122
     then Char (digit0 c) (digit1 c) (digit2 c) (digit3 c) (digit4 c) False (digit6 c) (digit7 c)
     else c)"

definition to_lower :: "char \<Rightarrow> char" where
  "to_lower c = (let n = (of_char c :: nat) in
     if 65 \<le> n \<and> n \<le> 90
     then Char (digit0 c) (digit1 c) (digit2 c) (digit3 c) (digit4 c) True (digit6 c) (digit7 c)
     else c)"

definition is_space :: "char \<Rightarrow> bool" where
  "is_space c = (let n = (of_char c :: nat) in (9 \<le> n \<and> n \<le> 13) \<or> (28 \<le> n \<and> n \<le> 32))"

definition upper :: "string \<Rightarrow> string" where
  "upper s = map to_upper s"

definition lower :: "string \<Rightarrow> string" where
  "lower s = map to_lower s"

definition strip :: "string \<Rightarrow> string" where
  "strip s = rev (dropWhile is_space (rev (dropWhile is_space s)))"

subsection \<open>Python's \<open>x or default\<close> on numbers\<close>

text \<open>\<open>float(v or d)\<close>: a missing value, \<open>None\<close> and \<open>0\<close> are all falsy and give \<open>d\<close>.\<close>

definition or_default :: "real option \<Rightarrow> real \<Rightarrow> real" where
  "or_default v d = (case v of None \<Rightarrow> d | Some x \<Rightarrow> if x = 0 then d else x)"

text \<open>\<open>float(v) if v else None\<close>: \<open>None\<close> and \<open>0\<close> give \<open>None\<close>.\<close>

definition truthy :: "real option \<Rightarrow> real option" where
  "truthy v = (case v of None \<Rightarrow> None | Some x \<Rightarrow> if x = 0 then None else Some x)"

section \<open>The position ledger (position_manager.py)\<close>

record position =
  pos_id :: string
  symbol :: string
  source :: string
  entry_price :: real
  qty :: real
  current_price :: real
  pnl_usdt :: real
  pnl_percent :: real
  tp_price :: "real option"
  sl_price :: "real option"
  use_trailing :: bool
  trailing_sl_pct :: real
  peak_price :: real
  status :: string
  mode :: string
  opened_at :: real
  closed_at :: "real option"
  exit_reason :: "string option"
  meta :: "string list"

record ledger =
  open_positions :: "(string \<times> position) list"
  closed_positions :: "position list"

definition empty_ledger :: ledger where
  "empty_ledger = \<lparr>open_positions = [], closed_positions = []\<rparr>"

text \<open>The settings the ledger and the engine read; \<open>None\<close> is a key that is not set.\<close>

record settings =
  cfg_trading_mode :: "string option"
  cfg_take_profit_pct :: "real option"
  cfg_stop_loss_pct :: "real option"
  cfg_use_trailing :: "bool option"
  cfg_trailing_sl_pct :: "real option"
  cfg_min_trade_usdt :: "real option"

datatype error = ValueError string

definition has_open_bot_position :: "ledger \<Rightarrow> string \<Rightarrow> bool" where
  "has_open_bot_position L s =
     (let nsym = upper s in
      list_ex (\<lambda>(i, p). upper (symbol p) = nsym \<and> status p = ''open'' \<and> source p = ''bot'')
        (open_positions L))"

definition get_open_positions :: "ledger \<Rightarrow> position list" where
  "get_open_positions L = map snd (open_positions L)"

text \<open>
  The arguments of \<open>open_position\<close>, with the two values Python draws from outside:
  \<open>arg_new_id\<close> is \<open>str(uuid.uuid4())\<close> and \<open>arg_now\<close> is \<open>time.time()\<close>.
\<close>

record open_args =
  arg_symbol :: string
  arg_entry_price :: real
  arg_qty :: real
  arg_mode :: "string option"
  arg_source :: string
  arg_opened_at :: "real option"
  arg_tp_price :: "real option"
  arg_sl_price :: "real option"
  arg_use_trailing :: "bool option"
  arg_trailing_sl_pct :: "real option"
  arg_meta :: "string list"
  arg_new_id :: string
  arg_now :: real

text \<open>The block "fallback settings if AI did not provide" of \<open>open_position\<close>.\<close>

definition fallback_settings ::
  "settings \<Rightarrow> open_args \<Rightarrow> real option \<times> real option \<times> bool option \<times> real option" where
  "fallback_settings cfg a =
     (if arg_tp_price a = None \<or> arg_sl_price a = None \<or> arg_use_trailing a = None
         \<or> arg_trailing_sl_pct a = None
      then
        let take_profit = or_default (cfg_take_profit_pct cfg) (3/2);
            stop_loss = or_default (cfg_stop_loss_pct cfg) 1;
            use_tr = (case cfg_use_trailing cfg of None \<Rightarrow> True | Some b \<Rightarrow> b);
            tr_pct = or_default (cfg_trailing_sl_pct cfg) stop_loss;
            tp = (if arg_tp_price a = None \<and> 0 < take_profit
                  then Some (arg_entry_price a * (1 + take_profit / 100)) else arg_tp_price a);
            sl = (if arg_sl_price a = None \<and> 0 < stop_loss
                  then Some (arg_entry_price a * (1 - stop_loss / 100)) else arg_sl_price a);
            ut = (case arg_use_trailing a of None \<Rightarrow> Some use_tr | Some b \<Rightarrow> Some b);
            tsp = (case arg_trailing_sl_pct a of None \<Rightarrow> Some tr_pct | Some x \<Rightarrow> Some x)
        in (tp, sl, ut, tsp)
      else (arg_tp_price a, arg_sl_price a, arg_use_trailing a, arg_trailing_sl_pct a))"

definition new_position :: "settings \<Rightarrow> string \<Rightarrow> open_args \<Rightarrow> position" where
  "new_position cfg nsym a =
     (let trade_mode = lower (case arg_mode a of
                                Some m \<Rightarrow> if m = [] then
                                   (case cfg_trading_mode cfg of None \<Rightarrow> ''paper'' | Some c \<Rightarrow> c)
                                   else m
                              | None \<Rightarrow> (case cfg_trading_mode cfg of None \<Rightarrow> ''paper'' | Some c \<Rightarrow> c));
          (tp, sl, ut, tsp) = fallback_settings cfg a
      in \<lparr>pos_id = arg_new_id a,
          symbol = nsym,
          source = arg_source a,
          entry_price = arg_entry_price a,
          qty = arg_qty a,
          current_price = arg_entry_price a,
          pnl_usdt = 0,
          pnl_percent = 0,
          tp_price = truthy tp,
          sl_price = truthy sl,
          use_trailing = (if arg_source a = ''bot''
                          then (case ut of None \<Rightarrow> False | Some b \<Rightarrow> b) else False),
          trailing_sl_pct = or_default tsp 0,
          peak_price = arg_entry_price a,
          status = ''open'',
          mode = trade_mode,
          opened_at = or_default (arg_opened_at a) (arg_now a),
          closed_at = None,
          exit_reason = None,
          meta = arg_meta a\<rparr>)"

definition open_position :: "settings \<Rightarrow> ledger \<Rightarrow> open_args \<Rightarrow> error + (ledger \<times> position)" where
  "open_position cfg L a =
     (let nsym = strip (upper (arg_symbol a)) in
      if arg_entry_price a \<le> 0 \<or> arg_qty a \<le> 0 \<or> nsym = []
      then Inl (ValueError ''Invalid position parameters.'')
      else if arg_source a = ''bot'' \<and> has_open_bot_position L nsym
      then Inl (ValueError (''Bot already has open position on '' @ nsym))
      else
        let p = new_position cfg nsym a
        in Inr (L\<lparr>open_positions := AList.update (arg_new_id a) p (open_positions L)\<rparr>, p))"

text \<open>The body of the loop of \<open>update_price\<close>, for a position on the ticked symbol.\<close>

definition update_pos :: "real \<Rightarrow> position \<Rightarrow> position" where
  "update_pos price p =
     (let entry = entry_price p;
          q = qty p;
          p1 = p\<lparr>current_price := price,
                 pnl_usdt := (price - entry) * q,
                 pnl_percent := (if 0 < entry then ((price - entry) / entry) * 100 else 0)\<rparr>
      in if source p1 = ''bot'' \<and> use_trailing p1
         then (case sl_price p1 of
                 None \<Rightarrow> p1
               | Some cur_sl \<Rightarrow>
                   if peak_price p1 < price
                   then
                     let p2 = p1\<lparr>peak_price := price\<rparr>;
                         tr_pct = trailing_sl_pct p2
                     in if 0 < tr_pct
                        then
                          let new_sl = price * (1 - tr_pct / 100)
                          in if cur_sl < new_sl then p2\<lparr>sl_price := Some new_sl\<rparr> else p2
                        else p2
                   else p1)
         else p1)"

definition update_price :: "ledger \<Rightarrow> string \<Rightarrow> real \<Rightarrow> ledger" where
  "update_price L s price =
     (let nsym = strip (upper s) in
      if price \<le> 0 \<or> nsym = [] then L
      else L\<lparr>open_positions :=
               map (\<lambda>(i, p). (i, if upper (symbol p) \<noteq> nsym \<or> status p \<noteq> ''open'' then p
                                  else update_pos price p))
                 (open_positions L)\<rparr>)"

text \<open>One position's contribution to the result of \<open>check_exit_recommendations\<close>.\<close>

definition exit_rec :: "string \<Rightarrow> real \<Rightarrow> bool \<Rightarrow> string \<times> position \<Rightarrow> (string \<times> string) option" where
  "exit_rec nsym price allow_trailing ip =
     (let i = fst ip; p = snd ip in
      if status p \<noteq> ''open'' then None
      else if upper (symbol p) \<noteq> nsym then None
      else if source p \<noteq> ''bot'' then None
      else
        let use_tr = (use_trailing p \<and> allow_trailing) in
        if (case tp_price p of None \<Rightarrow> False | Some tp \<Rightarrow> tp \<le> price) then Some (i, ''TP'')
        else if (case sl_price p of None \<Rightarrow> False | Some sl \<Rightarrow> price \<le> sl)
        then Some (i, if \<not> use_tr then ''SL'' else ''TRAILING_SL'')
        else None)"

definition check_exit_recommendations ::
  "ledger \<Rightarrow> string \<Rightarrow> real \<Rightarrow> bool \<Rightarrow> (string \<times> string) list" where
  "check_exit_recommendations L s price allow_trailing =
     (let nsym = strip (upper s) in
      if price \<le> 0 then []
      else List.map_filter (exit_rec nsym price allow_trailing) (open_positions L))"

text \<open>
  \<open>close_position\<close> returns the closed position, or \<open>None\<close> on failure. \<open>now\<close> is
  \<open>time.time()\<close>, used when \<open>closed_at\<close> is not given.
\<close>

definition close_position ::
  "ledger \<Rightarrow> string \<Rightarrow> real \<Rightarrow> string \<Rightarrow> real option \<Rightarrow> real \<Rightarrow> ledger \<times> position option" where
  "close_position L position_id exit_price reason closed_at_arg now =
     (case map_of (open_positions L) position_id of
        None \<Rightarrow> (L, None)
      | Some pos \<Rightarrow>
          if status pos \<noteq> ''open'' then (L, None)
          else if source pos = ''manual'' then (L, None)
          else
            let entry = entry_price pos;
                q = qty pos;
                pos' = pos\<lparr>current_price := exit_price,
                           pnl_usdt := (exit_price - entry) * q,
                           pnl_percent := (if 0 < entry then ((exit_price - entry) / entry) * 100 else 0),
                           status := ''closed'',
                           closed_at := Some (or_default closed_at_arg now),
                           exit_reason := Some reason\<rparr>
            in (L\<lparr>closed_positions := pos' # closed_positions L,
                   open_positions := AList.delete position_id (open_positions L)\<rparr>,
                Some pos'))"

subsection \<open>Histories of ledger operations\<close>

text \<open>
  A ledger state is reachable when a sequence of calls of the three mutating operations
  produces it from the empty ledger. A call that fails (an exception of
  \<open>open_position\<close>, a \<open>None\<close> of \<open>close_position\<close>) leaves the ledger as it was.
\<close>

datatype ledger_op =
    OpOpen settings open_args
  | OpTick string real
  | OpClose string real string "real option" real

fun apply_op :: "ledger \<Rightarrow> ledger_op \<Rightarrow> ledger" where
  "apply_op L (OpOpen cfg a) = (case open_position cfg L a of Inl e \<Rightarrow> L | Inr (L', p) \<Rightarrow> L')"
| "apply_op L (OpTick s price) = update_price L s price"
| "apply_op L (OpClose i exit_price reason closed_at_arg now) =
     fst (close_position L i exit_price reason closed_at_arg now)"

definition run_ops :: "ledger_op list \<Rightarrow> ledger" where
  "run_ops ops = foldl apply_op empty_ledger ops"

definition apply_ticks :: "ledger \<Rightarrow> (string \<times> real) list \<Rightarrow> ledger" where
  "apply_ticks L ticks = foldl (\<lambda>M t. update_price M (fst t) (snd t)) L ticks"

text \<open>Order on optional stop prices: an unset stop stays unset, a set stop may only rise.\<close>

fun sl_le :: "real option \<Rightarrow> real option \<Rightarrow> bool" where
  "sl_le None None = True"
| "sl_le (Some a) (Some b) = (a \<le> b)"
| "sl_le _ _ = False"

subsection \<open>Invariants and sample data of the ledger\<close>

definition tick_pos :: "string \<Rightarrow> real \<Rightarrow> position \<Rightarrow> position" where
  "tick_pos nsym price p = (if upper (symbol p) \<noteq> nsym \<or> status p \<noteq> ''open'' then p else update_pos price p)"

definition wf_ledger :: "ledger \<Rightarrow> bool" where
  "wf_ledger L \<longleftrightarrow>
     distinct (map fst (open_positions L)) \<and>
     (\<forall>i p. (i, p) \<in> set (open_positions L) \<longrightarrow>
        pos_id p = i \<and> status p = ''open'' \<and> symbol p \<noteq> [] \<and> upper (symbol p) = symbol p)"

definition pnl_consistent :: "ledger \<Rightarrow> bool" where
  "pnl_consistent L \<longleftrightarrow>
     (\<forall>i p. (i, p) \<in> set (open_positions L) \<longrightarrow>
        pnl_usdt p = (current_price p - entry_price p) * qty p)"

definition one_bot_per_symbol :: "ledger \<Rightarrow> bool" where
  "one_bot_per_symbol L \<longleftrightarrow>
     (\<forall>i p j q. (i, p) \<in> set (open_positions L) \<and> (j, q) \<in> set (open_positions L) \<and>
        source p = ''bot'' \<and> source q = ''bot'' \<and> symbol p = symbol q \<longrightarrow> i = j)"

definition default_settings :: settings where
  "default_settings = \<lparr>cfg_trading_mode = Some ''paper'', cfg_take_profit_pct = Some 3,
     cfg_stop_loss_pct = Some 2, cfg_use_trailing = Some True, cfg_trailing_sl_pct = Some 1,
     cfg_min_trade_usdt = Some 2\<rparr>"

definition sample_args :: open_args where
  "sample_args = \<lparr>arg_symbol = ''btcusdt'', arg_entry_price = 100, arg_qty = 2,
     arg_mode = None, arg_source = ''bot'', arg_opened_at = None, arg_tp_price = Some 103,
     arg_sl_price = Some 98, arg_use_trailing = Some True, arg_trailing_sl_pct = Some 1,
     arg_meta = [], arg_new_id = ''p1'', arg_now = 1000\<rparr>"

definition sample_position :: position where
  "sample_position = new_position default_settings ''BTCUSDT'' sample_args"

definition manual_position :: position where
  "manual_position = sample_position\<lparr>pos_id := ''m1'', source := ''manual''\<rparr>"

definition sample_ledger :: ledger where
  "sample_ledger = \<lparr>open_positions = [(''p1'', sample_position), (''m1'', manual_position)],
                     closed_positions = []\<rparr>"

section \<open>The risk gate (risk_manager.py)\<close>

record risk_manager =
  max_open_trades :: int
  max_trades_per_symbol :: int
  loss_cooldown_min :: int
  reentry_delay_min :: int
  last_loss_time :: real
  last_closed_time_per_symbol :: "(string \<times> real) list"

text \<open>
  \<open>check_new_position\<close> returns \<open>(allowed, reason)\<close>. Of its arguments only the symbol and
  the list of open positions are read; \<open>tnow\<close> is \<open>time.time()\<close>.
\<close>

definition check_new_position ::
  "risk_manager \<Rightarrow> real \<Rightarrow> string \<Rightarrow> position list \<Rightarrow> bool \<times> string option" where
  "check_new_position rm tnow s opens =
     (let nsym = strip (upper s) in
      if 0 < loss_cooldown_min rm \<and> tnow - last_loss_time rm < of_int (loss_cooldown_min rm * 60)
      then (False, Some ''LOSS_COOLDOWN_ACTIVE'')
      else
        let last_close = (case map_of (last_closed_time_per_symbol rm) nsym of
                            None \<Rightarrow> 0 | Some t \<Rightarrow> t)
        in if 0 < reentry_delay_min rm \<and> 0 < last_close
              \<and> tnow - last_close < of_int (reentry_delay_min rm * 60)
           then (False, Some ''REENTRY_DELAY_ACTIVE'')
           else if 0 < max_open_trades rm \<and> max_open_trades rm \<le> int (length opens)
           then (False, Some ''MAX_OPEN_TRADES_REACHED'')
           else
             let cnt_sym = length (filter (\<lambda>p. upper (symbol p) = nsym) opens)
             in if 0 < max_trades_per_symbol rm \<and> max_trades_per_symbol rm \<le> int cnt_sym
                then (False, Some ''SYMBOL_MAX_TRADES_REACHED'')
                else (True, None))"

definition on_position_closed :: "risk_manager \<Rightarrow> string \<Rightarrow> real \<Rightarrow> real \<Rightarrow> risk_manager" where
  "on_position_closed rm s pnl ts =
     (let nsym = strip (upper s);
          rm1 = rm\<lparr>last_closed_time_per_symbol :=
                     AList.update nsym ts (last_closed_time_per_symbol rm)\<rparr>
      in if pnl < 0 then rm1\<lparr>last_loss_time := ts\<rparr> else rm1)"

section \<open>The execution core (trading_engine.py)\<close>

text \<open>
  The state document \<open>st\<close> that the engine reads and writes through the state manager.
  \<open>None\<close> is a key that is missing or holds \<open>None\<close>; every reader of these keys treats the
  two alike.
\<close>

record bot_state =
  paper_balance_usdt :: "real option"
  realized_pnl_today :: "real option"
  daily_date :: "string option"
  daily_start_equity :: "real option"
  capital_usdt :: "real option"
  bot_balance_usdt :: "real option"
  last_profit_split_date :: "string option"

record ai_trade_decision =
  d_symbol :: string
  d_action :: string
  d_score :: real
  d_signal :: string
  d_requested_trade_usdt :: real
  d_sl_pct :: "real option"
  d_tp_pct :: "real option"
  d_use_trailing :: bool
  d_trailing_sl_pct :: real
  d_reason_tags :: "string list"
  d_reject_reason :: "string option"

text \<open>
  \<open>client\<close> says whether \<open>self.client\<close> is set; \<open>prices\<close> is \<open>market.prices\<close>.
\<close>

record engine =
  paper_mode :: bool
  client :: bool
  max_bot_balance :: real
  prices :: "(string \<times> real) list"
  st :: bot_state
  positions :: ledger
  risk :: risk_manager
  eng_settings :: settings

text \<open>
  What the outside world answers during one call of the engine: whether a Binance client
  can be created, the fill of a market BUY (\<open>None\<close> when \<open>create_order\<close> raises, else
  \<open>executedQty\<close> and \<open>cummulativeQuoteQty\<close>), whether a market SELL of a symbol raises,
  the exchange filters known for the symbol (\<open>LOT_SIZE\<close> as \<open>(minQty, maxQty, stepSize)\<close>,
  \<open>MIN_NOTIONAL\<close>), the next \<open>uuid4\<close> and the clock.
\<close>

record exchange =
  ex_can_connect :: bool
  ex_buy_fill :: "(real \<times> real) option"
  ex_sell_fails :: "string \<Rightarrow> bool"
  ex_lot_size :: "(real \<times> real \<times> real) option"
  ex_min_notional :: real
  ex_new_id :: string
  ex_now :: real

text \<open>
  \<open>float(f"{x:.nf}")\<close>: rounding to \<open>n\<close> decimals, ties to even.
\<close>

definition round_half_even :: "real \<Rightarrow> int" where
  "round_half_even x =
     (let f = \<lfloor>x\<rfloor>; d = x - of_int f in
      if d < 1/2 then f else if 1/2 < d then f + 1 else if even f then f else f + 1)"

definition fmt_fixed :: "nat \<Rightarrow> real \<Rightarrow> real" where
  "fmt_fixed n x = of_int (round_half_even (x * 10 ^ n)) / 10 ^ n"

definition init_live_client_if_needed :: "engine \<Rightarrow> exchange \<Rightarrow> engine" where
  "init_live_client_if_needed e ex =
     (if paper_mode e then e\<lparr>client := False\<rparr>
      else if client e then e
      else e\<lparr>client := ex_can_connect ex\<rparr>)"

definition normalize_quantity :: "engine \<Rightarrow> exchange \<Rightarrow> real \<Rightarrow> real \<Rightarrow> real" where
  "normalize_quantity e ex q price =
     (if q \<le> 0 \<or> price \<le> 0 then 0
      else if paper_mode e then fmt_fixed 6 q
      else
        let lot = (case ex_lot_size ex of
                     None \<Rightarrow> Some q
                   | Some (min_qty, max_qty, step) \<Rightarrow>
                       let q1 = (if 0 < step then of_int \<lfloor>q / step\<rfloor> * step else q)
                       in if q1 < min_qty then None
                          else if 0 < max_qty \<and> max_qty < q1 then Some max_qty
                          else Some q1)
        in case lot of
             None \<Rightarrow> 0
           | Some q2 \<Rightarrow>
               let mn = ex_min_notional ex
               in if 0 < mn \<and> q2 * price < mn then 0 else fmt_fixed 8 q2)"

text \<open>
  The engine functions return the new engine and the reject code that
  \<open>_log_entry_reject\<close> is called with, if it is called.
\<close>

definition entry_args ::
  "engine \<Rightarrow> exchange \<Rightarrow> string \<Rightarrow> real \<Rightarrow> real \<Rightarrow> real option \<Rightarrow> real option
     \<Rightarrow> bool \<Rightarrow> real \<Rightarrow> string list \<Rightarrow> open_args" where
  "entry_args e ex s price q tp sl use_tr tr_pct tags =
     \<lparr>arg_symbol = s, arg_entry_price = price, arg_qty = q,
      arg_mode = Some (if paper_mode e then ''paper'' else ''live''),
      arg_source = ''bot'', arg_opened_at = None,
      arg_tp_price = truthy tp, arg_sl_price = truthy sl,
      arg_use_trailing = Some (use_tr \<and> 0 < tr_pct),
      arg_trailing_sl_pct = Some tr_pct,
      arg_meta = tags, arg_new_id = ex_new_id ex, arg_now = ex_now ex\<rparr>"

text \<open>
  The part of \<open>_execute_entry\<close> after the live order: the paper debit, then
  \<open>open_position\<close>, whose exception is caught and logged. The balance expression
  \<open>max(0.0, paper_bal - trade_amount)\<close> is the code's; the code evaluates it in floating
  point, the model exactly.
\<close>

definition debit_and_open ::
  "engine \<Rightarrow> exchange \<Rightarrow> string \<Rightarrow> real \<Rightarrow> real \<Rightarrow> real option \<Rightarrow> real option
     \<Rightarrow> bool \<Rightarrow> real \<Rightarrow> string list \<Rightarrow> engine \<times> string option" where
  "debit_and_open e ex s price q tp sl use_tr tr_pct tags =
     (let trade_amount = price * q;
          paper_bal = or_default (paper_balance_usdt (st e)) 0
      in if paper_mode e \<and> paper_bal + 1 / 10 ^ 9 < trade_amount
         then (e, Some ''PAPER_INSUFFICIENT_BAL'')
         else
           let e1 = (if paper_mode e
                     then e\<lparr>st := (st e)\<lparr>paper_balance_usdt :=
                                          Some (max 0 (paper_bal - trade_amount))\<rparr>\<rparr>
                     else e)
           in case open_position (eng_settings e1) (positions e1)
                     (entry_args e1 ex s price q tp sl use_tr tr_pct tags) of
                Inl err \<Rightarrow> (e1, None)
              | Inr (L', p) \<Rightarrow> (e1\<lparr>positions := L'\<rparr>, None))"

definition execute_entry ::
  "engine \<Rightarrow> exchange \<Rightarrow> string \<Rightarrow> real \<Rightarrow> real \<Rightarrow> real option \<Rightarrow> real option
     \<Rightarrow> bool \<Rightarrow> real \<Rightarrow> string list \<Rightarrow> engine \<times> string option" where
  "execute_entry e ex s0 price q tp sl use_tr tr_pct tags =
     (let s = upper s0 in
      if \<not> paper_mode e
      then
        let e1 = init_live_client_if_needed e ex in
        if \<not> client e1 then (e1, None)
        else (case ex_buy_fill ex of
                None \<Rightarrow> (e1, None)
              | Some (filled_qty, cumm_quote) \<Rightarrow>
                  if 0 < filled_qty \<and> 0 < cumm_quote
                  then debit_and_open e1 ex s (cumm_quote / filled_qty) filled_qty
                         tp sl use_tr tr_pct tags
                  else debit_and_open e1 ex s price q tp sl use_tr tr_pct tags)
      else debit_and_open e ex s price q tp sl use_tr tr_pct tags)"

text \<open>
  \<open>_execute_close\<close>. The credit \<open>paper_balance_usdt + qty * price\<close> is the code's expression;
  the code evaluates it in floating point, the model exactly.
\<close>

definition execute_close :: "engine \<Rightarrow> exchange \<Rightarrow> string \<Rightarrow> real \<Rightarrow> string \<Rightarrow> engine" where
  "execute_close e ex i price reason =
     (case map_of (open_positions (positions e)) i of
        None \<Rightarrow> e
      | Some pos \<Rightarrow>
          if source pos \<noteq> ''bot'' then e
          else
            let s = upper (symbol pos);
                q = qty pos
            in if q \<le> 0 then e
               else if \<not> paper_mode e \<and> client e \<and> ex_sell_fails ex s then e
               else (case close_position (positions e) i price reason None (ex_now ex) of
                       (L', None) \<Rightarrow> e
                     | (L', Some closed_pos) \<Rightarrow>
                         let pnl = pnl_usdt closed_pos;
                             st1 = (st e)\<lparr>realized_pnl_today :=
                                      Some (or_default (realized_pnl_today (st e)) 0 + pnl)\<rparr>;
                             st2 = (if paper_mode e
                                    then st1\<lparr>paper_balance_usdt :=
                                           Some (or_default (paper_balance_usdt st1) 0 + q * price)\<rparr>
                                    else st1)
                         in e\<lparr>positions := L', st := st2,
                              risk := on_position_closed (risk e) s pnl (ex_now ex)\<rparr>))"

definition close_all :: "engine \<Rightarrow> exchange \<Rightarrow> real \<Rightarrow> (string \<times> string) list \<Rightarrow> engine" where
  "close_all e ex price recs = foldl (\<lambda>e' ir. execute_close e' ex (fst ir) price (snd ir)) e recs"

text \<open>
  The entry path of \<open>_apply_ai_decision\<close> after the risk gate and the duplicate check:
  sizing, the clip by the paper balance, the minimum trade value, the quantity
  normalisation and the call of \<open>_execute_entry\<close>.
\<close>

definition try_entry ::
  "engine \<Rightarrow> exchange \<Rightarrow> ai_trade_decision \<Rightarrow> string \<Rightarrow> real \<Rightarrow> engine \<times> string option" where
  "try_entry e2 ex d nsym last_price =
     (let req_usdt = d_requested_trade_usdt d in
      if req_usdt \<le> 0 then (e2, Some ''REQ_USDT_ZERO'')
      else
        let paper_bal = or_default (paper_balance_usdt (st e2)) 0 in
        if paper_mode e2 \<and> paper_bal \<le> 0 then (e2, Some ''PAPER_BAL_ZERO'')
        else
          let req = (if paper_mode e2 then min req_usdt paper_bal else req_usdt);
              min_trade = (case cfg_min_trade_usdt (eng_settings e2) of None \<Rightarrow> 2 | Some m \<Rightarrow> m)
          in if req < min_trade then (e2, Some ''MIN_TRADE_BLOCK'')
             else
               let qty_raw = req / last_price;
                   q = normalize_quantity e2 ex qty_raw last_price
               in if q \<le> 0 then (e2, Some ''QTY_NORMALIZE_ZERO'')
                  else
                    let sl = (case truthy (d_sl_pct d) of
                                None \<Rightarrow> None
                              | Some pct \<Rightarrow> Some (last_price * (1 - pct / 100)));
                        tp = (case truthy (d_tp_pct d) of
                                None \<Rightarrow> None
                              | Some pct \<Rightarrow> Some (last_price * (1 + pct / 100)))
                    in execute_entry e2 ex nsym last_price q tp sl
                         (d_use_trailing d) (d_trailing_sl_pct d) (d_reason_tags d))"

text \<open>
  The first part of \<open>_apply_ai_decision\<close>: the price tick on the ledger and the closes
  that \<open>check_exit_recommendations\<close> asks for.
\<close>

definition tick_and_exits :: "engine \<Rightarrow> exchange \<Rightarrow> string \<Rightarrow> real \<Rightarrow> engine" where
  "tick_and_exits e ex nsym last_price =
     (let e1 = e\<lparr>positions := update_price (positions e) nsym last_price\<rparr>;
          recs = check_exit_recommendations (positions e1) nsym last_price True
      in close_all e1 ex last_price recs)"

definition apply_ai_decision ::
  "engine \<Rightarrow> exchange \<Rightarrow> ai_trade_decision \<Rightarrow> engine \<times> string option" where
  "apply_ai_decision e ex d =
     (let nsym = upper (d_symbol d) in
      if nsym = [] then (e, None)
      else
        let last_price = or_default (map_of (prices e) nsym) 0 in
        if last_price \<le> 0 then (e, Some ''NO_PRICE'')
        else
          let open_all = get_open_positions (update_price (positions e) nsym last_price);
              bot_positions_sym = filter (\<lambda>p. symbol p = nsym \<and> source p = ''bot'') open_all;
              e2 = tick_and_exits e ex nsym last_price
          in if d_action d = ''EXIT'' \<and> bot_positions_sym \<noteq> []
             then (close_all e2 ex last_price
                     (map (\<lambda>p. (pos_id p, ''AI_EXIT'')) bot_positions_sym), None)
             else if d_action d \<noteq> ''ENTRY'' then (e2, None)
             else if \<not> fst (check_new_position (risk e2) (ex_now ex) nsym open_all)
             then (e2, Some ''RISK_BLOCK'')
             else if bot_positions_sym \<noteq> [] then (e2, Some ''DUPLICATE_SYMBOL'')
             else try_entry e2 ex d nsym last_price)"

subsection \<open>Daily rollover and profit split\<close>

text \<open>\<open>mbb\<close> is \<open>self.max_bot_balance\<close>, \<open>today\<close> is \<open>date.today().isoformat()\<close>.\<close>

definition apply_daily_profit_split :: "real \<Rightarrow> bot_state \<Rightarrow> bot_state" where
  "apply_daily_profit_split mbb s =
     (let prev_date = (case daily_date s of None \<Rightarrow> [] | Some dt \<Rightarrow> dt) in
      if prev_date = [] then s
      else if (case last_profit_split_date s of None \<Rightarrow> [] | Some dt \<Rightarrow> dt) = prev_date then s
      else
        let pnl = or_default (realized_pnl_today s) 0;
            capital = or_default (capital_usdt s) mbb;
            bot_bal = or_default (bot_balance_usdt s) 0;
            half = pnl * (1/2);
            bot_bal' = (if 0 < pnl then bot_bal + half else bot_bal);
            capital' = (if 0 < pnl then capital + half
                        else if pnl < 0 then capital + pnl else capital)
        in s\<lparr>capital_usdt := Some capital', bot_balance_usdt := Some bot_bal',
              last_profit_split_date := Some prev_date\<rparr>)"

definition ensure_daily_rollover :: "real \<Rightarrow> string \<Rightarrow> bot_state \<Rightarrow> bot_state" where
  "ensure_daily_rollover mbb today s =
     (let prev_date = (case daily_date s of None \<Rightarrow> [] | Some dt \<Rightarrow> dt) in
      if prev_date = []
      then s\<lparr>daily_date := Some today, daily_start_equity := Some mbb,
              realized_pnl_today := (case realized_pnl_today s of
                                       None \<Rightarrow> Some 0 | Some x \<Rightarrow> Some x)\<rparr>
      else if prev_date \<noteq> today
      then (apply_daily_profit_split mbb s)
             \<lparr>realized_pnl_today := Some 0, daily_date := Some today,
              daily_start_equity := Some mbb\<rparr>
      else s)"

subsection \<open>Sample data of the engine\<close>

definition sample_state :: bot_state where
  "sample_state = \<lparr>paper_balance_usdt = Some 1000, realized_pnl_today = Some 8,
     daily_date = Some ''2024-01-01'', daily_start_equity = Some 1000,
     capital_usdt = Some 1000, bot_balance_usdt = Some 0, last_profit_split_date = None\<rparr>"

definition sample_risk :: risk_manager where
  "sample_risk = \<lparr>max_open_trades = 5, max_trades_per_symbol = 2, loss_cooldown_min = 5,
     reentry_delay_min = 10, last_loss_time = 0, last_closed_time_per_symbol = []\<rparr>"

text \<open>A paper-mode engine with no positions, a given paper balance and BTCUSDT price.\<close>

definition paper_engine :: "real \<Rightarrow> real \<Rightarrow> engine" where
  "paper_engine bal px = \<lparr>paper_mode = True, client = False, max_bot_balance = 1000,
     prices = [(''BTCUSDT'', px)], st = sample_state\<lparr>paper_balance_usdt := Some bal\<rparr>,
     positions = empty_ledger, risk = sample_risk, eng_settings = default_settings\<rparr>"

definition sample_exchange :: exchange where
  "sample_exchange = \<lparr>ex_can_connect = False, ex_buy_fill = None, ex_sell_fails = (\<lambda>s. False),
     ex_lot_size = None, ex_min_notional = 0, ex_new_id = ''p1'', ex_now = 1000\<rparr>"

definition entry_decision :: ai_trade_decision where
  "entry_decision = \<lparr>d_symbol = ''BTCUSDT'', d_action = ''ENTRY'', d_score = 9/10,
     d_signal = ''ENTRY'', d_requested_trade_usdt = 10, d_sl_pct = Some 2, d_tp_pct = Some 3,
     d_use_trailing = False, d_trailing_sl_pct = 1, d_reason_tags = [], d_reject_reason = None\<rparr>"

text \<open>A paper engine that already holds the sample bot position on BTCUSDT.\<close>

definition holding_engine :: engine where
  "holding_engine = (paper_engine 1000 100)\<lparr>positions := run_ops [OpOpen default_settings sample_args]\<rparr>"

section \<open>Reconnect backoff of the market data stream (market_data_manager.py)\<close>

text \<open>
  The fields of \<open>MarketDataManager\<close> that the reconnect logic reads and writes. The
  threading event \<open>_force_reconnect_event\<close> is a flag.
\<close>

record market_data_manager =
  running :: bool
  reconnect_index :: nat
  force_reconnect_event :: bool
  ws_backoff_sec :: "int list"
  watch_symbols :: "string list"

definition md_start :: "market_data_manager \<Rightarrow> market_data_manager" where
  "md_start m =
     (if running m then m
      else m\<lparr>running := True, force_reconnect_event := False, reconnect_index := 0\<rparr>)"

definition md_stop :: "market_data_manager \<Rightarrow> market_data_manager" where
  "md_stop m = m\<lparr>running := False, force_reconnect_event := True\<rparr>"

text \<open>\<open>list(dict.fromkeys(xs))\<close>: the first occurrence of every element, in order.\<close>

fun fromkeys :: "'a list \<Rightarrow> 'a list" where
  "fromkeys [] = []"
| "fromkeys (x # xs) = x # fromkeys (filter (\<lambda>y. y \<noteq> x) xs)"

text \<open>
  \<open>update_symbols\<close> takes \<open>self._lock\<close>, a \<open>threading.Lock\<close> that is not reentrant. For
  an unchanged watch set it returns at once. For a changed one it stores the new list
  and calls \<open>_rebuild_streams_url\<close>, whose first statement takes \<open>self._lock\<close> again:
  the calling thread blocks there for ever, and the statements after the \<open>with\<close> block
  (the history preload and \<open>_force_reconnect_event.set()\<close>) are never reached. The
  result says whether the call returns, with the state it leaves.
\<close>

datatype call_result = Returned market_data_manager | Deadlocked market_data_manager

fun state_of :: "call_result \<Rightarrow> market_data_manager" where
  "state_of (Returned m) = m"
| "state_of (Deadlocked m) = m"

definition update_symbols :: "market_data_manager \<Rightarrow> string list \<Rightarrow> call_result" where
  "update_symbols m syms =
     (let new_syms = fromkeys (map (\<lambda>s. strip (upper s)) (filter (\<lambda>s. s \<noteq> []) syms)) in
      if new_syms = watch_symbols m then Returned m
      else Deadlocked (m\<lparr>watch_symbols := new_syms\<rparr>))"

definition on_open :: "market_data_manager \<Rightarrow> market_data_manager" where
  "on_open m = m\<lparr>reconnect_index := 0\<rparr>"

text \<open>
  What \<open>_ws_loop\<close> does once \<open>_connect_and_run\<close> has returned or raised: leave the loop,
  reconnect at once, or sleep for a delay. An empty \<open>ws_backoff_sec\<close> makes the index
  expression raise \<open>IndexError\<close>, which ends the thread.
\<close>

datatype loop_step = Stopped | Reconnect_now | Sleep int | Crashed

definition after_disconnect :: "market_data_manager \<Rightarrow> market_data_manager \<times> loop_step" where
  "after_disconnect m =
     (if \<not> running m then (m, Stopped)
      else if force_reconnect_event m
      then (m\<lparr>force_reconnect_event := False, reconnect_index := 0\<rparr>, Reconnect_now)
      else if ws_backoff_sec m = [] then (m, Crashed)
      else
        let delay = ws_backoff_sec m ! min (reconnect_index m) (length (ws_backoff_sec m) - 1)
        in (m\<lparr>reconnect_index := reconnect_index m + 1\<rparr>, Sleep delay))"

text \<open>
  A history of the stream: a connection that opens (\<open>_on_open\<close>), a connection or a
  connection attempt that ends, a call of \<open>update_symbols\<close> from another thread (the
  stream goes on with the state that call leaves). The run keeps the steps of the loop,
  latest first.
\<close>

datatype ws_event = Opened | Dropped | Watch "string list"

fun ws_step :: "market_data_manager \<times> loop_step list \<Rightarrow> ws_event
                 \<Rightarrow> market_data_manager \<times> loop_step list" where
  "ws_step (m, slept) Opened = (on_open m, slept)"
| "ws_step (m, slept) Dropped = (fst (after_disconnect m), snd (after_disconnect m) # slept)"
| "ws_step (m, slept) (Watch syms) = (state_of (update_symbols m syms), slept)"

definition ws_run :: "market_data_manager \<Rightarrow> ws_event list \<Rightarrow> market_data_manager \<times> loop_step list" where
  "ws_run m evs = foldl ws_step (m, []) evs"

definition sample_stream :: market_data_manager where
  "sample_stream = \<lparr>running = True, reconnect_index = 0, force_reconnect_event = False,
     ws_backoff_sec = [2, 5, 10, 15], watch_symbols = [''BTCUSDT'']\<rparr>"

section \<open>The decision gate (ai_orchestrator.py)\<close>

text \<open>
  What \<open>evaluate_symbol\<close> reads from a strategy output with \<open>getattr\<close>; \<open>None\<close> is an
  attribute the object does not have.
\<close>

record strategy_output =
  out_signal :: "string option"
  out_score :: "real option"
  out_reason_tags :: "string list option"
  out_sl_pct :: "real option"
  out_tp_pct :: "real option"
  out_use_trailing :: "bool option"
  out_trailing_sl_pct :: "real option"

text \<open>
  The section \<open>ai\<close> of the settings; \<open>None\<close> is a key that is not set. The key
  \<open>warmup_relax_signals_delta\<close> is in the default settings and no code reads it.
\<close>

record ai_conf =
  ai_min_score :: "real option"
  ai_min_valid_signals :: "int option"
  ai_eval_cooldown_sec :: "real option"
  ai_warmup_relax_sec :: "real option"
  ai_warmup_relax_score_delta :: "real option"
  ai_warmup_relax_signals_delta :: "int option"
  ai_default_sl_pct :: "real option"
  ai_default_tp_pct :: "real option"
  ai_default_trailing_sl_pct :: "real option"
  ai_trade_usdt :: "real option"
  ai_trade_usdt_min :: "real option"
  ai_trade_usdt_max :: "real option"

record orchestrator =
  last_eval_ts :: "(string \<times> real) list"
  last_decision_cache :: "(string \<times> ai_trade_decision) list"
  boot_ts :: real

definition or_default_int :: "int option \<Rightarrow> int \<Rightarrow> int" where
  "or_default_int v d = (case v of None \<Rightarrow> d | Some x \<Rightarrow> if x = 0 then d else x)"

text \<open>
  The decision \<open>evaluate_symbol\<close> computes when it does not answer from its cache, from
  the strategy output \<open>out\<close> of the symbol, the clock \<open>tnow\<close> and the engine start \<open>boot\<close>.
\<close>

definition fresh_decision ::
  "ai_conf \<Rightarrow> real \<Rightarrow> real \<Rightarrow> string \<Rightarrow> strategy_output option \<Rightarrow> ai_trade_decision" where
  "fresh_decision conf tnow boot nsym out =
     (case out of
        None \<Rightarrow>
          \<lparr>d_symbol = nsym, d_action = ''HOLD'', d_score = 0, d_signal = ''HOLD'',
           d_requested_trade_usdt = 0, d_sl_pct = None, d_tp_pct = None,
           d_use_trailing = False, d_trailing_sl_pct = 0, d_reason_tags = [],
           d_reject_reason = Some ''NO_STRATEGY_OUTPUT_YET''\<rparr>
      | Some ou \<Rightarrow>
          let signal = upper (case out_signal ou of
                                None \<Rightarrow> ''HOLD''
                              | Some g \<Rightarrow> if g = [] then ''HOLD'' else g);
              score = or_default (out_score ou) 0;
              valid_count = (1::int);
              reason_tags = (case out_reason_tags ou of None \<Rightarrow> [] | Some ts \<Rightarrow> ts);
              min_score_base = or_default (ai_min_score conf) (2/5);
              min_signals_base = or_default_int (ai_min_valid_signals conf) 1;
              default_sl = (case ai_default_sl_pct conf of None \<Rightarrow> 2 | Some x \<Rightarrow> x);
              default_tp = (case ai_default_tp_pct conf of None \<Rightarrow> 3 | Some x \<Rightarrow> x);
              default_trailing = (case ai_default_trailing_sl_pct conf of None \<Rightarrow> 1 | Some x \<Rightarrow> x);
              trade_usdt = max (or_default (ai_trade_usdt_min conf) 2)
                             (min (or_default (ai_trade_usdt conf) 10)
                                  (or_default (ai_trade_usdt_max conf) 30));
              warmup_sec = or_default (ai_warmup_relax_sec conf) 300;
              elapsed = tnow - boot;
              relaxed = (elapsed < warmup_sec);
              min_score = (if relaxed
                           then max 0 (min_score_base
                                       - or_default (ai_warmup_relax_score_delta conf) (1/10))
                           else min_score_base);
              min_signals = min_signals_base;
              dc = \<lparr>d_symbol = nsym, d_action = ''HOLD'', d_score = score, d_signal = signal,
                    d_requested_trade_usdt = trade_usdt,
                    d_sl_pct = (case truthy (out_sl_pct ou) of
                                  Some x \<Rightarrow> Some x | None \<Rightarrow> truthy (Some default_sl)),
                    d_tp_pct = (case truthy (out_tp_pct ou) of
                                  Some x \<Rightarrow> Some x | None \<Rightarrow> truthy (Some default_tp)),
                    d_use_trailing = (case out_use_trailing ou of None \<Rightarrow> False | Some b \<Rightarrow> b),
                    d_trailing_sl_pct = (case truthy (out_trailing_sl_pct ou) of
                                           Some x \<Rightarrow> x | None \<Rightarrow> default_trailing),
                    d_reason_tags = reason_tags, d_reject_reason = None\<rparr>
          in if signal \<in> set [''EXIT'', ''SELL'', ''CLOSE'']
             then dc\<lparr>d_action := ''EXIT'', d_reject_reason := None\<rparr>
             else if signal \<notin> set [''ENTRY'', ''BUY'', ''LONG'']
             then dc\<lparr>d_action := ''HOLD'', d_reject_reason := Some ''STRATEGY_SIGNAL_NOT_ENTRY''\<rparr>
             else if score < min_score
             then dc\<lparr>d_action := ''HOLD'', d_reject_reason := Some ''SCORE_BELOW_MIN''\<rparr>
             else if valid_count < min_signals
             then dc\<lparr>d_action := ''HOLD'', d_reject_reason := Some ''NOT_ENOUGH_VALID_SIGNALS''\<rparr>
             else dc\<lparr>d_action := ''ENTRY'', d_reject_reason := None\<rparr>)"

definition evaluate_symbol ::
  "ai_conf \<Rightarrow> (string \<times> strategy_output) list \<Rightarrow> real \<Rightarrow> orchestrator \<Rightarrow> string
     \<Rightarrow> orchestrator \<times> ai_trade_decision" where
  "evaluate_symbol conf outputs tnow orch s0 =
     (let nsym = strip (upper s0);
          cooldown = or_default (ai_eval_cooldown_sec conf) 2;
          last_ts = (case map_of (last_eval_ts orch) nsym of None \<Rightarrow> 0 | Some t \<Rightarrow> t);
          cached = (if 0 < cooldown \<and> tnow - last_ts < cooldown
                    then map_of (last_decision_cache orch) nsym else None)
      in case cached of
           Some dc \<Rightarrow> (orch, dc)
         | None \<Rightarrow>
             let orch1 = orch\<lparr>last_eval_ts := AList.update nsym tnow (last_eval_ts orch)\<rparr>;
                 dc = fresh_decision conf tnow (boot_ts orch1) nsym (map_of outputs nsym)
             in (orch1\<lparr>last_decision_cache :=
                          AList.update nsym dc (last_decision_cache orch1)\<rparr>, dc))"

text \<open>
  The default \<open>ai\<close> settings with \<open>min_valid_signals\<close> raised to 2, an engine started at
  time 0 with an empty cache, and a strategy output that signals an entry with score 0.9.
\<close>

definition strict_conf :: ai_conf where
  "strict_conf = \<lparr>ai_min_score = Some (2/5), ai_min_valid_signals = Some 2,
     ai_eval_cooldown_sec = Some 2, ai_warmup_relax_sec = Some 300,
     ai_warmup_relax_score_delta = Some (1/10), ai_warmup_relax_signals_delta = Some 1,
     ai_default_sl_pct = Some 2, ai_default_tp_pct = Some 3,
     ai_default_trailing_sl_pct = Some 1, ai_trade_usdt = Some 10,
     ai_trade_usdt_min = Some 2, ai_trade_usdt_max = Some 30\<rparr>"

definition fresh_orchestrator :: orchestrator where
  "fresh_orchestrator = \<lparr>last_eval_ts = [], last_decision_cache = [], boot_ts = 0\<rparr>"

definition entry_output :: strategy_output where
  "entry_output = \<lparr>out_signal = Some ''ENTRY'', out_score = Some (9/10), out_reason_tags = None,
     out_sl_pct = None, out_tp_pct = None, out_use_trailing = None, out_trailing_sl_pct = None\<rparr>"

section \<open>Properties of the position ledger\<close>

subsection \<open>Auxiliary facts\<close>

lemma to_upper_idem: "to_upper (to_upper c) = to_upper c"
  by (cases c) (auto simp: to_upper_def Let_def)

lemma upper_idem: "upper (upper s) = upper s"
  by (simp add: upper_def to_upper_idem)

lemma set_strip: "set (strip s) \<subseteq> set s"
proof -
  have "set (strip s) = set (dropWhile is_space (rev (dropWhile is_space s)))"
    by (simp add: strip_def)
  also have "\<dots> \<subseteq> set (rev (dropWhile is_space s))"
    by (rule set_dropWhileD[THEN subsetI]) 
  also have "\<dots> \<subseteq> set s"
    using set_dropWhileD by fastforce
  finally show ?thesis .
qed

lemma upper_strip_upper: "upper (strip (upper s)) = strip (upper s)"
proof -
  have "\<forall>c \<in> set (strip (upper s)). to_upper c = c"
    using set_strip[of "upper s"] by (auto simp: upper_def to_upper_idem)
  then show ?thesis
    unfolding upper_def[of "strip _"] by (simp add: map_idI)
qed

lemma update_pos_sl:
  "sl_price (update_pos price p) = sl_price p \<or>
   (\<exists>old new. sl_price p = Some old \<and> sl_price (update_pos price p) = Some new \<and> old < new
      \<and> new = price * (1 - trailing_sl_pct p / 100) \<and> peak_price p < price
      \<and> use_trailing p \<and> source p = ''bot'')"
  by (auto simp: update_pos_def Let_def split: option.splits)

lemma update_pos_sl_le: "sl_le (sl_price p) (sl_price (update_pos price p))"
  using update_pos_sl[of price p] by (cases "sl_price p") auto

lemma sl_le_refl: "sl_le a a" by (cases a) auto
lemma sl_le_trans: "sl_le a b \<Longrightarrow> sl_le b c \<Longrightarrow> sl_le a c"
  by (cases a; cases b; cases c) auto

lemma map_of_map_values:
  "map_of (map (\<lambda>(i, p). (i, f p)) xs) k = map_option f (map_of xs k)"
  by (induction xs) auto

lemma update_price_tick_pos:
  "update_price L s price =
     (if price \<le> 0 \<or> strip (upper s) = [] then L
      else L\<lparr>open_positions := map (\<lambda>(i, p). (i, tick_pos (strip (upper s)) price p)) (open_positions L)\<rparr>)"
  by (simp add: update_price_def Let_def tick_pos_def)

lemma map_of_update_price:
  "map_of (open_positions (update_price L s price)) i =
     (if price \<le> 0 \<or> strip (upper s) = [] then map_of (open_positions L) i
      else map_option (tick_pos (strip (upper s)) price) (map_of (open_positions L) i))"
  by (simp add: update_price_tick_pos map_of_map_values)

lemma tick_pos_sl_le: "sl_le (sl_price p) (sl_price (tick_pos n price p))"
  by (simp add: tick_pos_def update_pos_sl_le sl_le_refl)

lemma update_price_keeps:
  assumes "map_of (open_positions L) i = Some p"
  shows "\<exists>p'. map_of (open_positions (update_price L s price)) i = Some p' \<and>
           sl_le (sl_price p) (sl_price p')"
  using assms by (auto simp: map_of_update_price tick_pos_sl_le sl_le_refl)

lemma apply_ticks_keeps:
  "map_of (open_positions L) i = Some p \<Longrightarrow>
   \<exists>p'. map_of (open_positions (apply_ticks L ticks)) i = Some p' \<and> sl_le (sl_price p) (sl_price p')"
proof (induction ticks arbitrary: L p)
  case Nil
  then show ?case by (simp add: apply_ticks_def sl_le_refl)
next
  case (Cons t ticks)
  from update_price_keeps[OF Cons.prems, of "fst t" "snd t"]
  obtain p1 where p1: "map_of (open_positions (update_price L (fst t) (snd t))) i = Some p1"
    and le1: "sl_le (sl_price p) (sl_price p1)" by blast
  from Cons.IH[OF p1] obtain p' where
    "map_of (open_positions (apply_ticks (update_price L (fst t) (snd t)) ticks)) i = Some p'"
    "sl_le (sl_price p1) (sl_price p')" by blast
  then show ?case using le1 by (auto simp: apply_ticks_def intro: sl_le_trans)
qed

lemma update_price_step:
  assumes "map_of (open_positions L) i = Some p"
  shows "\<exists>p1. map_of (open_positions (update_price L s price)) i = Some p1 \<and>
           (sl_price p1 = sl_price p \<or>
            (\<exists>old new. sl_price p = Some old \<and> sl_price p1 = Some new \<and> old < new
               \<and> new = price * (1 - trailing_sl_pct p / 100) \<and> peak_price p < price
               \<and> use_trailing p))"
  using assms update_pos_sl[of price p] by (auto simp: map_of_update_price tick_pos_def)

lemma set_alist_update: "set (AList.update k v xs) \<subseteq> insert (k, v) (set xs)"
  by (induction xs) auto

lemma set_alist_delete: "set (AList.delete k xs) \<subseteq> set xs"
  by (auto simp: AList.delete_eq)

lemma update_pos_fields:
  "pos_id (update_pos price p) = pos_id p"
  "status (update_pos price p) = status p"
  "symbol (update_pos price p) = symbol p"
  "source (update_pos price p) = source p"
  "entry_price (update_pos price p) = entry_price p"
  "qty (update_pos price p) = qty p"
  "current_price (update_pos price p) = price"
  "pnl_usdt (update_pos price p) = (price - entry_price p) * qty p"
  by (simp_all add: update_pos_def Let_def split: option.splits)

lemma new_position_fields:
  "pos_id (new_position cfg n a) = arg_new_id a"
  "status (new_position cfg n a) = ''open''"
  "symbol (new_position cfg n a) = n"
  "source (new_position cfg n a) = arg_source a"
  "entry_price (new_position cfg n a) = arg_entry_price a"
  "qty (new_position cfg n a) = arg_qty a"
  "current_price (new_position cfg n a) = arg_entry_price a"
  "pnl_usdt (new_position cfg n a) = 0"
  by (simp_all add: new_position_def Let_def case_prod_unfold)

lemma has_open_bot_position_iff:
  "has_open_bot_position L s \<longleftrightarrow>
     (\<exists>i p. (i, p) \<in> set (open_positions L) \<and>
        upper (symbol p) = upper s \<and> status p = ''open'' \<and> source p = ''bot'')"
  by (auto simp: has_open_bot_position_def Let_def list_ex_iff)

lemma mem_update_price:
  assumes "(i, p') \<in> set (open_positions (update_price L s price))"
  shows "\<exists>p. (i, p) \<in> set (open_positions L) \<and>
           (p' = p \<or> (p' = update_pos price p \<and> upper (symbol p) = strip (upper s)
                        \<and> status p = ''open'' \<and> 0 < price))"
proof (cases "price \<le> 0 \<or> strip (upper s) = []")
  case True
  with assms show ?thesis by (auto simp: update_price_def Let_def)
next
  case False
  with assms obtain p where p: "(i, p) \<in> set (open_positions L)"
    and e: "p' = tick_pos (strip (upper s)) price p"
    by (auto simp: update_price_tick_pos)
  show ?thesis
  proof (cases "upper (symbol p) \<noteq> strip (upper s) \<or> status p \<noteq> ''open''")
    case True
    with e have "p' = p" by (simp add: tick_pos_def)
    with p show ?thesis by blast
  next
    case r: False
    with e have "p' = update_pos price p" by (simp add: tick_pos_def)
    with p r False show ?thesis by (intro exI[of _ p]) simp
  qed
qed

lemma keys_update_price:
  "map fst (open_positions (update_price L s price)) = map fst (open_positions L)"
  by (simp add: update_price_tick_pos comp_def case_prod_unfold)

lemma mem_close:
  "(j, q) \<in> set (open_positions (fst (close_position L i x r c now))) \<Longrightarrow>
   (j, q) \<in> set (open_positions L)"
  using set_alist_delete[of i "open_positions L"]
  by (auto simp: close_position_def Let_def split: option.splits if_splits)

lemma keys_close:
  "distinct (map fst (open_positions L)) \<Longrightarrow>
   distinct (map fst (open_positions (fst (close_position L i x r c now))))"
  by (auto simp: close_position_def Let_def distinct_delete split: option.splits)

lemma open_position_InrD:
  assumes "open_position cfg L a = Inr (L', p)"
  shows "p = new_position cfg (strip (upper (arg_symbol a))) a"
    and "L' = L\<lparr>open_positions := AList.update (arg_new_id a) p (open_positions L)\<rparr>"
    and "strip (upper (arg_symbol a)) \<noteq> []"
    and "0 < arg_entry_price a" and "0 < arg_qty a"
    and "\<not> (arg_source a = ''bot'' \<and> has_open_bot_position L (strip (upper (arg_symbol a))))"
  using assms by (auto simp: open_position_def Let_def split: if_splits)

lemma mem_open:
  assumes "open_position cfg L a = Inr (L', p)" "(j, q) \<in> set (open_positions L')"
  shows "(j, q) = (arg_new_id a, p) \<or> (j, q) \<in> set (open_positions L)"
  using assms(2) set_alist_update[of "arg_new_id a" p "open_positions L"]
  unfolding open_position_InrD(2)[OF assms(1)] by auto

lemma wf_update_price: "wf_ledger L \<Longrightarrow> wf_ledger (update_price L s price)"
  unfolding wf_ledger_def keys_update_price
  by (auto dest!: mem_update_price simp: update_pos_fields upper_strip_upper)

lemma wf_close: "wf_ledger L \<Longrightarrow> wf_ledger (fst (close_position L i x r c now))"
  unfolding wf_ledger_def using keys_close[of L i x r c now]
  by (auto dest!: mem_close)

lemma wf_open:
  assumes "wf_ledger L" "open_position cfg L a = Inr (L', p)"
  shows "wf_ledger L'"
proof -
  note d = open_position_InrD[OF assms(2)]
  have "distinct (map fst (open_positions L'))"
    using assms(1) by (simp add: d(2) wf_ledger_def distinct_update)
  moreover have "pos_id q = i \<and> status q = ''open'' \<and> symbol q \<noteq> [] \<and> upper (symbol q) = symbol q"
    if "(i, q) \<in> set (open_positions L')" for i q
    using mem_open[OF assms(2) that] assms(1) d(3)
    by (auto simp: wf_ledger_def d(1) new_position_fields upper_strip_upper)
  ultimately show ?thesis unfolding wf_ledger_def by blast
qed

lemma wf_apply_op: "wf_ledger L \<Longrightarrow> wf_ledger (apply_op L opn)"
proof (cases opn)
  case (OpOpen cfg a)
  assume "wf_ledger L"
  then show ?thesis using OpOpen wf_open[of L cfg a]
    by (cases "open_position cfg L a") auto
qed (simp_all add: wf_update_price wf_close)

lemma foldl_invariant:
  "P L \<Longrightarrow> (\<And>M opn. P M \<Longrightarrow> P (apply_op M opn)) \<Longrightarrow> P (foldl apply_op L ops)"
  by (induction ops arbitrary: L) auto

lemma wf_empty: "wf_ledger empty_ledger"
  by (simp add: wf_ledger_def empty_ledger_def)

lemma wf_run_ops: "wf_ledger (run_ops ops)"
  unfolding run_ops_def
  by (rule foldl_invariant[where P = wf_ledger]) (simp_all add: wf_empty wf_apply_op)

lemma pnl_update_price: "pnl_consistent L \<Longrightarrow> pnl_consistent (update_price L s price)"
  unfolding pnl_consistent_def
  by (auto dest!: mem_update_price simp: update_pos_fields)

lemma pnl_close: "pnl_consistent L \<Longrightarrow> pnl_consistent (fst (close_position L i x r c now))"
  unfolding pnl_consistent_def by (auto dest!: mem_close)

lemma pnl_open:
  assumes "pnl_consistent L" "open_position cfg L a = Inr (L', p)"
  shows "pnl_consistent L'"
proof -
  note d = open_position_InrD[OF assms(2)]
  have "pnl_usdt q = (current_price q - entry_price q) * qty q"
    if "(i, q) \<in> set (open_positions L')" for i q
    using mem_open[OF assms(2) that] assms(1)
    by (auto simp: pnl_consistent_def d(1) new_position_fields)
  then show ?thesis unfolding pnl_consistent_def by blast
qed

lemma pnl_apply_op: "pnl_consistent L \<Longrightarrow> pnl_consistent (apply_op L opn)"
proof (cases opn)
  case (OpOpen cfg a)
  assume "pnl_consistent L"
  then show ?thesis using OpOpen pnl_open[of L cfg a]
    by (cases "open_position cfg L a") auto
qed (simp_all add: pnl_update_price pnl_close)

lemma pnl_empty: "pnl_consistent empty_ledger"
  by (simp add: pnl_consistent_def empty_ledger_def)

lemma pnl_run_ops: "pnl_consistent (run_ops ops)"
  unfolding run_ops_def
  by (rule foldl_invariant[where P = pnl_consistent]) (simp_all add: pnl_empty pnl_apply_op)

lemma one_bot_update_price:
  assumes "one_bot_per_symbol L"
  shows "one_bot_per_symbol (update_price L s price)"
  unfolding one_bot_per_symbol_def
proof (intro allI impI, elim conjE)
  fix i p j q
  assume m: "(i, p) \<in> set (open_positions (update_price L s price))"
            "(j, q) \<in> set (open_positions (update_price L s price))"
    and b: "source p = ''bot''" "source q = ''bot''" "symbol p = symbol q"
  from mem_update_price[OF m(1)] obtain p0 where p0: "(i, p0) \<in> set (open_positions L)"
    "source p0 = source p" "symbol p0 = symbol p" by (auto simp: update_pos_fields)
  from mem_update_price[OF m(2)] obtain q0 where q0: "(j, q0) \<in> set (open_positions L)"
    "source q0 = source q" "symbol q0 = symbol q" by (auto simp: update_pos_fields)
  from assms p0 q0 b show "i = j" unfolding one_bot_per_symbol_def by metis
qed

lemma one_bot_close:
  assumes "one_bot_per_symbol L"
  shows "one_bot_per_symbol (fst (close_position L i x r c now))"
  unfolding one_bot_per_symbol_def
proof (intro allI impI, elim conjE)
  fix k p j q
  assume m: "(k, p) \<in> set (open_positions (fst (close_position L i x r c now)))"
            "(j, q) \<in> set (open_positions (fst (close_position L i x r c now)))"
    and b: "source p = ''bot''" "source q = ''bot''" "symbol p = symbol q"
  from assms mem_close[OF m(1)] mem_close[OF m(2)] b show "k = j"
    unfolding one_bot_per_symbol_def by metis
qed

lemma one_bot_open:
  assumes inv: "one_bot_per_symbol L" and wf: "wf_ledger L"
    and op: "open_position cfg L a = Inr (L', p)"
  shows "one_bot_per_symbol L'"
proof -
  note d = open_position_InrD[OF op]
  let ?n = "strip (upper (arg_symbol a))"
  have fresh: False
    if q: "(j, q) \<in> set (open_positions L)" "source q = ''bot''" "source p = ''bot''"
       "symbol q = symbol p" for j q
  proof -
    from wf q(1) have "status q = ''open''" "upper (symbol q) = symbol q"
      by (auto simp: wf_ledger_def)
    moreover have "symbol p = ?n" "upper ?n = ?n" "arg_source a = ''bot''"
      using q(3) by (simp_all add: d(1) new_position_fields upper_strip_upper)
    ultimately have "has_open_bot_position L ?n"
      unfolding has_open_bot_position_iff using q by metis
    with d(6) \<open>arg_source a = ''bot''\<close> show False by simp
  qed
  show ?thesis
    unfolding one_bot_per_symbol_def
  proof (intro allI impI, elim conjE)
    fix i q j r
    assume iq: "(i, q) \<in> set (open_positions L')" and jr: "(j, r) \<in> set (open_positions L')"
      and b: "source q = ''bot''" "source r = ''bot''" and s: "symbol q = symbol r"
    from mem_open[OF op iq] mem_open[OF op jr] show "i = j"
    proof (elim disjE)
      assume "(i, q) = (arg_new_id a, p)" "(j, r) = (arg_new_id a, p)"
      then show ?thesis by simp
    next
      assume n: "(i, q) = (arg_new_id a, p)" and o: "(j, r) \<in> set (open_positions L)"
      with fresh[OF o b(2)] b s show ?thesis by auto
    next
      assume o: "(i, q) \<in> set (open_positions L)" and n: "(j, r) = (arg_new_id a, p)"
      with fresh[OF o b(1)] b s show ?thesis by auto
    next
      assume "(i, q) \<in> set (open_positions L)" "(j, r) \<in> set (open_positions L)"
      with inv b s show ?thesis unfolding one_bot_per_symbol_def by metis
    qed
  qed
qed

lemma one_bot_empty: "one_bot_per_symbol empty_ledger"
  by (simp add: one_bot_per_symbol_def empty_ledger_def)

lemma both_inv_apply_op:
  assumes "wf_ledger L \<and> one_bot_per_symbol L"
  shows "wf_ledger (apply_op L opn) \<and> one_bot_per_symbol (apply_op L opn)"
proof (cases opn)
  case (OpOpen cfg a)
  then show ?thesis using assms wf_open[of L cfg a] one_bot_open[of L cfg a]
    by (cases "open_position cfg L a") auto
next
  case (OpTick s price)
  then show ?thesis using assms by (simp add: wf_update_price one_bot_update_price)
next
  case (OpClose i x r c now)
  then show ?thesis using assms by (simp add: wf_close one_bot_close)
qed

lemma one_bot_run_ops: "one_bot_per_symbol (run_ops ops)"
proof -
  have "wf_ledger (run_ops ops) \<and> one_bot_per_symbol (run_ops ops)"
    unfolding run_ops_def
    by (rule foldl_invariant[where P = "\<lambda>L. wf_ledger L \<and> one_bot_per_symbol L"])
       (simp_all add: wf_empty one_bot_empty both_inv_apply_op)
  then show ?thesis ..
qed

lemmas eval_defs = run_ops_def empty_ledger_def open_position_def new_position_def
  fallback_settings_def has_open_bot_position_def update_price_def update_pos_def
  close_position_def check_exit_recommendations_def exit_rec_def List.map_filter_def
  default_settings_def sample_args_def sample_position_def
  upper_def lower_def strip_def to_upper_def to_lower_def is_space_def
  or_default_def truthy_def Let_def apply_ticks_def

lemma sample_eval:
  "run_ops [OpOpen default_settings sample_args] =
     \<lparr>open_positions = [(''p1'', sample_position)], closed_positions = []\<rparr>"
  by (simp add: eval_defs)

lemma sample_position_eq:
  "sample_position = \<lparr>pos_id = ''p1'', symbol = ''BTCUSDT'', source = ''bot'', entry_price = 100,
     qty = 2, current_price = 100, pnl_usdt = 0, pnl_percent = 0, tp_price = Some 103,
     sl_price = Some 98, use_trailing = True, trailing_sl_pct = 1, peak_price = 100,
     status = ''open'', mode = ''paper'', opened_at = 1000, closed_at = None,
     exit_reason = None, meta = []\<rparr>"
  by (simp add: eval_defs)

lemma tick110:
  "update_price \<lparr>open_positions = [(''p1'', sample_position)], closed_positions = []\<rparr> ''btcusdt'' 110
   = \<lparr>open_positions = [(''p1'', sample_position\<lparr>current_price := 110, pnl_usdt := 20,
         pnl_percent := 10, peak_price := 110, sl_price := Some (1089/10)\<rparr>)], closed_positions = []\<rparr>"
  by (simp add: sample_position_eq) (simp add: eval_defs)

lemma close_missing:
  "map_of (open_positions L) i = None \<Longrightarrow> close_position L i x r c now = (L, None)"
  by (simp add: close_position_def)

lemma close_refused:
  "map_of (open_positions L) i = Some pos \<Longrightarrow> status pos \<noteq> ''open'' \<or> source pos = ''manual'' \<Longrightarrow>
   close_position L i x r c now = (L, None)"
  by (auto simp: close_position_def)

lemma map_of_delete_same: "map_of (AList.delete k xs) k = None"
  by (simp add: delete_conv')

lemma close_success:
  assumes "map_of (open_positions L) i = Some pos" "status pos = ''open''" "source pos \<noteq> ''manual''"
  shows "\<exists>pos'. close_position L i x r c now =
            (L\<lparr>closed_positions := pos' # closed_positions L,
               open_positions := AList.delete i (open_positions L)\<rparr>, Some pos')
          \<and> pos_id pos' = pos_id pos \<and> symbol pos' = symbol pos \<and> status pos' = ''closed''
          \<and> current_price pos' = x \<and> exit_reason pos' = Some r"
  using assms by (simp add: close_position_def Let_def)

lemma mem_map_filter: "y \<in> set (List.map_filter f xs) \<longleftrightarrow> (\<exists>x \<in> set xs. f x = Some y)"
  by (induction xs) (auto simp: List.map_filter_simps split: option.splits)

lemma exit_rec_Some_iff:
  "exit_rec n price allow (i, p) = Some (j, r) \<longleftrightarrow>
     j = i \<and> status p = ''open'' \<and> upper (symbol p) = n \<and> source p = ''bot''
     \<and> ((r = ''TP'' \<and> (\<exists>tp. tp_price p = Some tp \<and> tp \<le> price))
        \<or> (r = (if use_trailing p \<and> allow then ''TRAILING_SL'' else ''SL'')
            \<and> (tp_price p = None \<or> (\<exists>tp. tp_price p = Some tp \<and> price < tp))
            \<and> (\<exists>sl. sl_price p = Some sl \<and> price \<le> sl)))"
proof (cases "status p = ''open'' \<and> upper (symbol p) = n \<and> source p = ''bot''")
  case False
  then show ?thesis by (auto simp: exit_rec_def Let_def)
next
  case t: True
  show ?thesis
  proof (cases "\<exists>tp. tp_price p = Some tp \<and> tp \<le> price")
    case True
    then obtain tp where "tp_price p = Some tp" "tp \<le> price" by blast
    with t show ?thesis by (auto simp: exit_rec_def Let_def)
  next
    case ntp: False
    then have c: "(case tp_price p of None \<Rightarrow> False | Some tp \<Rightarrow> tp \<le> price) = False"
      by (cases "tp_price p") auto
    from ntp have d: "tp_price p = None \<or> (\<exists>tp. tp_price p = Some tp \<and> price < tp)"
      by (cases "tp_price p") auto
    show ?thesis
    proof (cases "\<exists>sl. sl_price p = Some sl \<and> price \<le> sl")
      case True
      then have "(case sl_price p of None \<Rightarrow> False | Some sl \<Rightarrow> price \<le> sl) = True" by auto
      with t c ntp d True show ?thesis
        by (simp add: exit_rec_def Let_def) (metis (full_types))
    next
      case False
      then have "(case sl_price p of None \<Rightarrow> False | Some sl \<Rightarrow> price \<le> sl) = False"
        by (cases "sl_price p") auto
      with t c ntp False show ?thesis by (simp add: exit_rec_def Let_def)
    qed
  qed
qed

lemma check_exit_mem_iff:
  assumes "0 < price"
  shows "(i, r) \<in> set (check_exit_recommendations L s price allow) \<longleftrightarrow>
     (\<exists>p. (i, p) \<in> set (open_positions L) \<and> status p = ''open''
          \<and> upper (symbol p) = strip (upper s) \<and> source p = ''bot''
          \<and> ((r = ''TP'' \<and> (\<exists>tp. tp_price p = Some tp \<and> tp \<le> price))
             \<or> (r = (if use_trailing p \<and> allow then ''TRAILING_SL'' else ''SL'')
                 \<and> (tp_price p = None \<or> (\<exists>tp. tp_price p = Some tp \<and> price < tp))
                 \<and> (\<exists>sl. sl_price p = Some sl \<and> price \<le> sl))))"
proof -
  have "(i, r) \<in> set (check_exit_recommendations L s price allow) \<longleftrightarrow>
        (\<exists>x \<in> set (open_positions L). exit_rec (strip (upper s)) price allow x = Some (i, r))"
    using assms by (simp add: check_exit_recommendations_def Let_def mem_map_filter)
  also have "\<dots> \<longleftrightarrow> (\<exists>k p. (k, p) \<in> set (open_positions L)
                          \<and> exit_rec (strip (upper s)) price allow (k, p) = Some (i, r))"
    by auto
  also have "\<dots> \<longleftrightarrow> (\<exists>p. (i, p) \<in> set (open_positions L) \<and> status p = ''open''
          \<and> upper (symbol p) = strip (upper s) \<and> source p = ''bot''
          \<and> ((r = ''TP'' \<and> (\<exists>tp. tp_price p = Some tp \<and> tp \<le> price))
             \<or> (r = (if use_trailing p \<and> allow then ''TRAILING_SL'' else ''SL'')
                 \<and> (tp_price p = None \<or> (\<exists>tp. tp_price p = Some tp \<and> price < tp))
                 \<and> (\<exists>sl. sl_price p = Some sl \<and> price \<le> sl))))"
    unfolding exit_rec_Some_iff by blast
  finally show ?thesis .
qed

subsection \<open>Claims about the ledger\<close>

text \<open>
  Claim C2. For a position held in the open set, no sequence of \<open>update_price\<close> calls
  lowers its \<open>sl_price\<close> (an unset stop stays unset), and a single call changes it only by
  raising it to \<open>price * (1 - trailing_sl_pct / 100)\<close>, which happens only for a position
  with trailing enabled, when the tick price exceeds the recorded \<open>peak_price\<close> and the
  new value is strictly greater than the current stop.
\<close>

theorem trailing_stop_never_lowered:
  assumes "map_of (open_positions L) i = Some p"
  shows "(\<exists>p'. map_of (open_positions (apply_ticks L ticks)) i = Some p' \<and>
             sl_le (sl_price p) (sl_price p'))
       \<and> (\<exists>p1. map_of (open_positions (update_price L s price)) i = Some p1 \<and>
             (sl_price p1 = sl_price p \<or>
              (\<exists>old new. sl_price p = Some old \<and> sl_price p1 = Some new \<and> old < new
                 \<and> new = price * (1 - trailing_sl_pct p / 100) \<and> peak_price p < price
                 \<and> use_trailing p)))"
  using apply_ticks_keeps[OF assms] update_price_step[OF assms] by blast

theorem trailing_stop_never_lowered_witness:
  "map_of (open_positions \<lparr>open_positions = [(''p1'', sample_position)], closed_positions = []\<rparr>) ''p1''
     = Some sample_position
   \<and> map_option sl_price (map_of (open_positions (apply_ticks
        \<lparr>open_positions = [(''p1'', sample_position)], closed_positions = []\<rparr>
        [(''btcusdt'', 110), (''btcusdt'', 105), (''btcusdt'', 120)])) ''p1'') = Some (Some (594/5))
   \<and> sl_le (sl_price sample_position) (Some (594/5))"
  using trailing_stop_never_lowered[of "\<lparr>open_positions = [(''p1'', sample_position)], closed_positions = []\<rparr>"
      "''p1''" sample_position "[(''btcusdt'', 110), (''btcusdt'', 105), (''btcusdt'', 120)]" "''btcusdt''" 110]
  by (simp add: sample_position_eq) (simp add: eval_defs)

text \<open>
  Claim C6. In every ledger state reached by a sequence of open, tick and close calls,
  each open position has \<open>pnl_usdt = (current_price - entry_price) * qty\<close>; and after a
  further \<open>update_price\<close> with a positive price, every open position on the ticked symbol
  has \<open>current_price\<close> equal to the tick price and \<open>pnl_usdt\<close> computed from it.
\<close>

theorem pnl_exact_after_every_tick:
  "(\<forall>i p. (i, p) \<in> set (open_positions (run_ops ops)) \<longrightarrow>
       pnl_usdt p = (current_price p - entry_price p) * qty p)
   \<and> (0 < price \<longrightarrow>
        (\<forall>i p. (i, p) \<in> set (open_positions (update_price (run_ops ops) s price))
                \<and> upper (symbol p) = strip (upper s) \<longrightarrow>
           current_price p = price \<and> pnl_usdt p = (price - entry_price p) * qty p))"
proof (intro conjI allI impI)
  fix i p assume "(i, p) \<in> set (open_positions (run_ops ops))"
  with pnl_run_ops[of ops] show "pnl_usdt p = (current_price p - entry_price p) * qty p"
    unfolding pnl_consistent_def by blast
next
  fix i p
  assume pos: "0 < price"
    and "(i, p) \<in> set (open_positions (update_price (run_ops ops) s price)) \<and>
         upper (symbol p) = strip (upper s)"
  then have m: "(i, p) \<in> set (open_positions (update_price (run_ops ops) s price))"
    and sy: "upper (symbol p) = strip (upper s)" by simp_all
  from mem_update_price[OF m] obtain p0 where p0: "(i, p0) \<in> set (open_positions (run_ops ops))"
    and c: "p = p0 \<or> (p = update_pos price p0 \<and> upper (symbol p0) = strip (upper s)
                        \<and> status p0 = ''open'' \<and> 0 < price)" by blast
  from wf_run_ops[of ops] p0 have w: "status p0 = ''open''" "symbol p0 \<noteq> []"
    "upper (symbol p0) = symbol p0" unfolding wf_ledger_def by blast+
  from c have "p = update_pos price p0"
  proof
    assume e: "p = p0"
    with sy w have ne: "strip (upper s) \<noteq> []" by simp
    from e sy w pos ne m have "(i, p0) \<in> set (map (\<lambda>(i, p). (i, tick_pos (strip (upper s)) price p)) (open_positions (run_ops ops)))"
      by (simp add: update_price_tick_pos)
    then obtain q where q: "(i, q) \<in> set (open_positions (run_ops ops))"
      and qe: "p0 = tick_pos (strip (upper s)) price q" by auto
    from wf_run_ops[of ops] q p0 have "q = p0"
      unfolding wf_ledger_def by (meson eq_key_imp_eq_value)
    with qe e sy w show ?thesis by (simp add: tick_pos_def)
  qed simp
  then show "current_price p = price" "pnl_usdt p = (price - entry_price p) * qty p"
    by (simp_all add: update_pos_fields)
qed

theorem pnl_exact_after_every_tick_witness:
  "(0::real) < 110
   \<and> (''p1'', sample_position\<lparr>current_price := 110, pnl_usdt := 20,
         pnl_percent := 10, peak_price := 110, sl_price := Some (1089/10)\<rparr>)
       \<in> set (open_positions (update_price (run_ops [OpOpen default_settings sample_args]) ''btcusdt'' 110))
   \<and> upper ''BTCUSDT'' = strip (upper ''btcusdt'')
   \<and> (20::real) = (110 - 100) * 2"
  using pnl_exact_after_every_tick[of "[OpOpen default_settings sample_args]" 110 "''btcusdt''"]
  by (simp add: sample_eval tick110) (simp add: eval_defs)

text \<open>
  Claim C7. \<open>close_position\<close> with an id that is not in the open set, or with the id of a
  position that is not open or is manual-sourced, returns \<open>None\<close> and leaves the ledger
  unchanged. A successful close removes the id from the open set and puts the closed
  position once at the front of the closed history; closing the same id again fails and
  changes nothing.
\<close>

theorem close_position_terminal_and_safe:
  "(map_of (open_positions L) i = None \<longrightarrow> close_position L i x r c now = (L, None))
   \<and> (\<forall>pos. map_of (open_positions L) i = Some pos
          \<and> (status pos \<noteq> ''open'' \<or> source pos = ''manual'')
        \<longrightarrow> close_position L i x r c now = (L, None))
   \<and> (\<forall>pos. map_of (open_positions L) i = Some pos \<and> status pos = ''open''
          \<and> source pos \<noteq> ''manual''
        \<longrightarrow> (\<exists>pos'. close_position L i x r c now =
                 (L\<lparr>closed_positions := pos' # closed_positions L,
                    open_positions := AList.delete i (open_positions L)\<rparr>, Some pos')
               \<and> pos_id pos' = pos_id pos \<and> status pos' = ''closed''
               \<and> map_of (AList.delete i (open_positions L)) i = None
               \<and> (\<forall>x2 r2 c2 now2.
                    close_position (fst (close_position L i x r c now)) i x2 r2 c2 now2
                      = (fst (close_position L i x r c now), None))))"
proof (intro conjI allI impI)
  assume "map_of (open_positions L) i = None"
  then show "close_position L i x r c now = (L, None)" by (rule close_missing)
next
  fix pos
  assume "map_of (open_positions L) i = Some pos \<and> (status pos \<noteq> ''open'' \<or> source pos = ''manual'')"
  then show "close_position L i x r c now = (L, None)" using close_refused by blast
next
  fix pos
  assume a: "map_of (open_positions L) i = Some pos \<and> status pos = ''open'' \<and> source pos \<noteq> ''manual''"
  then obtain pos' where e: "close_position L i x r c now =
            (L\<lparr>closed_positions := pos' # closed_positions L,
               open_positions := AList.delete i (open_positions L)\<rparr>, Some pos')"
     and f: "pos_id pos' = pos_id pos" "status pos' = ''closed''"
    using close_success[of L i pos x r c now] by blast
  have again: "close_position (fst (close_position L i x r c now)) i x2 r2 c2 now2
                 = (fst (close_position L i x r c now), None)" for x2 r2 c2 now2
    by (rule close_missing) (simp add: e map_of_delete_same)
  show "\<exists>pos'. close_position L i x r c now =
                 (L\<lparr>closed_positions := pos' # closed_positions L,
                    open_positions := AList.delete i (open_positions L)\<rparr>, Some pos')
               \<and> pos_id pos' = pos_id pos \<and> status pos' = ''closed''
               \<and> map_of (AList.delete i (open_positions L)) i = None
               \<and> (\<forall>x2 r2 c2 now2.
                    close_position (fst (close_position L i x r c now)) i x2 r2 c2 now2
                      = (fst (close_position L i x r c now), None))"
  proof (intro exI[of _ pos'] conjI allI)
    show "close_position L i x r c now =
            (L\<lparr>closed_positions := pos' # closed_positions L,
               open_positions := AList.delete i (open_positions L)\<rparr>, Some pos')" by (rule e)
    show "pos_id pos' = pos_id pos" by (rule f(1))
    show "status pos' = ''closed''" by (rule f(2))
    show "map_of (AList.delete i (open_positions L)) i = None" by (rule map_of_delete_same)
    show "close_position (fst (close_position L i x r c now)) i x2 r2 c2 now2
                      = (fst (close_position L i x r c now), None)" for x2 r2 c2 now2
      by (rule again)
  qed
qed

theorem close_position_terminal_and_safe_witness:
  "map_of (open_positions sample_ledger) ''zz'' = None
   \<and> close_position sample_ledger ''zz'' 105 ''TP'' None 2000 = (sample_ledger, None)
   \<and> map_of (open_positions sample_ledger) ''m1'' = Some manual_position
   \<and> source manual_position = ''manual''
   \<and> close_position sample_ledger ''m1'' 105 ''TP'' None 2000 = (sample_ledger, None)
   \<and> map_of (open_positions sample_ledger) ''p1'' = Some sample_position
   \<and> status sample_position = ''open'' \<and> source sample_position \<noteq> ''manual''
   \<and> open_positions (fst (close_position sample_ledger ''p1'' 105 ''TP'' None 2000))
        = [(''m1'', manual_position)]
   \<and> map (\<lambda>p. (pos_id p, status p, pnl_usdt p))
        (closed_positions (fst (close_position sample_ledger ''p1'' 105 ''TP'' None 2000)))
        = [(''p1'', ''closed'', 10)]
   \<and> close_position (fst (close_position sample_ledger ''p1'' 105 ''TP'' None 2000)) ''p1'' 106 ''SL'' None 3000
        = (fst (close_position sample_ledger ''p1'' 105 ''TP'' None 2000), None)"
  using close_position_terminal_and_safe[of sample_ledger "''zz''" 105 "''TP''" None 2000]
    close_position_terminal_and_safe[of sample_ledger "''m1''" 105 "''TP''" None 2000]
    close_position_terminal_and_safe[of sample_ledger "''p1''" 105 "''TP''" None 2000]
  by (simp add: sample_ledger_def manual_position_def sample_position_eq)
     (simp add: close_position_def Let_def or_default_def)

text \<open>
  Claim C8, as amended. For a non-positive price \<open>check_exit_recommendations\<close> returns
  nothing. For a positive price it returns \<open>(id, reason)\<close> exactly when \<open>id\<close> is an open
  bot position on the queried symbol and either the reason is \<open>TP\<close> and the price reaches
  or exceeds \<open>tp_price\<close>, or the take-profit is unset or not reached, the price is at or
  below \<open>sl_price\<close>, and the reason is \<open>TRAILING_SL\<close> if the position trails and trailing
  is allowed, else \<open>SL\<close>. A position opened at 100 with take-profit 103 yields
  \<open>(id, TP)\<close> at price 103.5.
\<close>

theorem check_exit_recommendations_tp_first:
  "(price \<le> 0 \<longrightarrow> check_exit_recommendations L s price allow = [])
   \<and> (0 < price \<longrightarrow>
        (\<forall>i p. (i, p) \<in> set (open_positions L) \<and> status p = ''open''
                \<and> upper (symbol p) = strip (upper s) \<and> source p = ''bot'' \<longrightarrow>
           (\<forall>tp. tp_price p = Some tp \<and> tp \<le> price \<longrightarrow>
                 (i, ''TP'') \<in> set (check_exit_recommendations L s price allow))
         \<and> (\<forall>sl. (tp_price p = None \<or> (\<exists>tp. tp_price p = Some tp \<and> price < tp))
                  \<and> sl_price p = Some sl \<and> price \<le> sl \<longrightarrow>
                 (i, if use_trailing p \<and> allow then ''TRAILING_SL'' else ''SL'')
                   \<in> set (check_exit_recommendations L s price allow))))
   \<and> (0 < price \<longrightarrow>
        (\<forall>i r. (i, r) \<in> set (check_exit_recommendations L s price allow) \<longleftrightarrow>
           (\<exists>p. (i, p) \<in> set (open_positions L) \<and> status p = ''open''
                \<and> upper (symbol p) = strip (upper s) \<and> source p = ''bot''
                \<and> ((r = ''TP'' \<and> (\<exists>tp. tp_price p = Some tp \<and> tp \<le> price))
                   \<or> (r = (if use_trailing p \<and> allow then ''TRAILING_SL'' else ''SL'')
                       \<and> (tp_price p = None \<or> (\<exists>tp. tp_price p = Some tp \<and> price < tp))
                       \<and> (\<exists>sl. sl_price p = Some sl \<and> price \<le> sl))))))
   \<and> check_exit_recommendations
        (run_ops [OpOpen default_settings sample_args]) ''BTCUSDT'' (207/2) True = [(''p1'', ''TP'')]"
proof (intro conjI allI impI)
  assume "price \<le> 0"
  then show "check_exit_recommendations L s price allow = []"
    by (simp add: check_exit_recommendations_def)
next
  fix i p tp
  assume pos: "0 < price"
    and m: "(i, p) \<in> set (open_positions L) \<and> status p = ''open''
                \<and> upper (symbol p) = strip (upper s) \<and> source p = ''bot''"
    and t: "tp_price p = Some tp \<and> tp \<le> price"
  then have "exit_rec (strip (upper s)) price allow (i, p) = Some (i, ''TP'')"
    by (simp add: exit_rec_def Let_def)
  moreover from m have "(i, p) \<in> set (open_positions L)" by simp
  ultimately have "(i, ''TP'') \<in> set (List.map_filter (exit_rec (strip (upper s)) price allow) (open_positions L))"
    unfolding mem_map_filter by (rule bexI)
  with pos show "(i, ''TP'') \<in> set (check_exit_recommendations L s price allow)"
    by (simp add: check_exit_recommendations_def Let_def)
next
  fix i p sl
  assume pos: "0 < price"
    and m: "(i, p) \<in> set (open_positions L) \<and> status p = ''open''
                \<and> upper (symbol p) = strip (upper s) \<and> source p = ''bot''"
    and t: "(tp_price p = None \<or> (\<exists>tp. tp_price p = Some tp \<and> price < tp))
                  \<and> sl_price p = Some sl \<and> price \<le> sl"
  then have "exit_rec (strip (upper s)) price allow (i, p)
               = Some (i, if use_trailing p \<and> allow then ''TRAILING_SL'' else ''SL'')"
    by (cases "tp_price p") (auto simp: exit_rec_def Let_def)
  moreover from m have "(i, p) \<in> set (open_positions L)" by simp
  ultimately have "(i, if use_trailing p \<and> allow then ''TRAILING_SL'' else ''SL'')
      \<in> set (List.map_filter (exit_rec (strip (upper s)) price allow) (open_positions L))"
    unfolding mem_map_filter by (rule bexI)
  with pos show "(i, if use_trailing p \<and> allow then ''TRAILING_SL'' else ''SL'')
                   \<in> set (check_exit_recommendations L s price allow)"
    by (simp add: check_exit_recommendations_def Let_def)
next
  fix i r
  assume "0 < price"
  then show "(i, r) \<in> set (check_exit_recommendations L s price allow) \<longleftrightarrow>
           (\<exists>p. (i, p) \<in> set (open_positions L) \<and> status p = ''open''
                \<and> upper (symbol p) = strip (upper s) \<and> source p = ''bot''
                \<and> ((r = ''TP'' \<and> (\<exists>tp. tp_price p = Some tp \<and> tp \<le> price))
                   \<or> (r = (if use_trailing p \<and> allow then ''TRAILING_SL'' else ''SL'')
                       \<and> (tp_price p = None \<or> (\<exists>tp. tp_price p = Some tp \<and> price < tp))
                       \<and> (\<exists>sl. sl_price p = Some sl \<and> price \<le> sl))))"
    by (rule check_exit_mem_iff)
next
  show "check_exit_recommendations
        (run_ops [OpOpen default_settings sample_args]) ''BTCUSDT'' (207/2) True = [(''p1'', ''TP'')]"
    by (simp add: eval_defs)
qed

theorem check_exit_recommendations_tp_first_witness:
  "(0::real) < 97
   \<and> (''p1'', sample_position) \<in> set (open_positions (run_ops [OpOpen default_settings sample_args]))
   \<and> status sample_position = ''open'' \<and> upper (symbol sample_position) = strip (upper '' btcusdt'')
   \<and> source sample_position = ''bot''
   \<and> tp_price sample_position = Some 103 \<and> (97::real) < 103
   \<and> sl_price sample_position = Some 98 \<and> (97::real) \<le> 98
   \<and> (''p1'', ''TRAILING_SL'') \<in> set (check_exit_recommendations
         (run_ops [OpOpen default_settings sample_args]) '' btcusdt'' 97 True)
   \<and> (''p1'', ''SL'') \<in> set (check_exit_recommendations
         (run_ops [OpOpen default_settings sample_args]) '' btcusdt'' 97 False)
   \<and> (''p1'', ''TP'') \<in> set (check_exit_recommendations
         (run_ops [OpOpen default_settings sample_args]) '' btcusdt'' 104 True)
   \<and> check_exit_recommendations (run_ops [OpOpen default_settings sample_args]) '' btcusdt'' 0 True = []
   \<and> (0::real) < 100
   \<and> check_exit_recommendations (run_ops [OpOpen default_settings sample_args]) '' btcusdt'' 100 True = []"
  using check_exit_recommendations_tp_first[of 100 "run_ops [OpOpen default_settings sample_args]" "'' btcusdt''" True]
    check_exit_recommendations_tp_first[of 97 "run_ops [OpOpen default_settings sample_args]" "'' btcusdt''" True]
    check_exit_recommendations_tp_first[of 97 "run_ops [OpOpen default_settings sample_args]" "'' btcusdt''" False]
    check_exit_recommendations_tp_first[of 104 "run_ops [OpOpen default_settings sample_args]" "'' btcusdt''" True]
    check_exit_recommendations_tp_first[of 0 "run_ops [OpOpen default_settings sample_args]" "'' btcusdt''" True]
  by (simp add: sample_eval sample_position_eq) (simp add: eval_defs)

text \<open>
  The claim as first stated fails where the stop has trailed above the take-profit: after
  a tick at 110 the stop is 108.9, and at price 105 (below the stop, above the take-profit
  103) only \<open>TP\<close> is returned.
\<close>

theorem check_exit_recommendations_sl_counterexample:
  "map_option sl_price (map_of (open_positions
       (run_ops [OpOpen default_settings sample_args, OpTick ''BTCUSDT'' 110])) ''p1'')
     = Some (Some (1089/10))
   \<and> (105::real) \<le> 1089/10
   \<and> check_exit_recommendations
        (run_ops [OpOpen default_settings sample_args, OpTick ''BTCUSDT'' 110]) ''BTCUSDT'' 105 True
       = [(''p1'', ''TP'')]
   \<and> (''p1'', ''SL'') \<notin> set (check_exit_recommendations
        (run_ops [OpOpen default_settings sample_args, OpTick ''BTCUSDT'' 110]) ''BTCUSDT'' 105 True)
   \<and> (''p1'', ''TRAILING_SL'') \<notin> set (check_exit_recommendations
        (run_ops [OpOpen default_settings sample_args, OpTick ''BTCUSDT'' 110]) ''BTCUSDT'' 105 True)"
  by (simp add: eval_defs)

section \<open>Daily rollover\<close>

lemma rollover_same_date:
  "daily_date s = Some today \<Longrightarrow> today \<noteq> [] \<Longrightarrow> ensure_daily_rollover mbb today s = s"
  by (simp add: ensure_daily_rollover_def)

lemma rollover_sets_date:
  "daily_date (ensure_daily_rollover mbb today s) = Some today \<or>
   (daily_date s = Some today)"
  by (auto simp: ensure_daily_rollover_def Let_def split: option.splits)

lemma rollover_date: "today \<noteq> [] \<Longrightarrow> daily_date (ensure_daily_rollover mbb today s) = Some today"
  by (auto simp: ensure_daily_rollover_def Let_def split: option.splits)

lemma split_marked:
  "daily_date s = Some dt \<Longrightarrow> last_profit_split_date s = Some dt \<Longrightarrow>
   apply_daily_profit_split mbb s = s"
  by (simp add: apply_daily_profit_split_def)

lemma split_applies:
  assumes "daily_date s = Some dt" "dt \<noteq> []" "last_profit_split_date s \<noteq> Some dt"
  shows "apply_daily_profit_split mbb s =
           s\<lparr>capital_usdt := Some (let pnl = or_default (realized_pnl_today s) 0;
                                       capital = or_default (capital_usdt s) mbb
                                   in if 0 < pnl then capital + pnl / 2
                                      else if pnl < 0 then capital + pnl else capital),
             bot_balance_usdt := Some (let pnl = or_default (realized_pnl_today s) 0;
                                           bot_bal = or_default (bot_balance_usdt s) 0
                                       in if 0 < pnl then bot_bal + pnl / 2 else bot_bal),
             last_profit_split_date := Some dt\<rparr>"
  using assms by (cases "last_profit_split_date s") (auto simp: apply_daily_profit_split_def Let_def)

text \<open>
  Claim C4. A second rollover on the same date changes nothing (whatever
  \<open>max_bot_balance\<close> has become), and a rollover on a state whose \<open>daily_date\<close> is already
  today is a no-op; the profit split does nothing when \<open>last_profit_split_date\<close> equals
  \<open>daily_date\<close> and is idempotent. When the split applies, a positive realized PnL adds
  half of it to \<open>bot_balance_usdt\<close> (and half to capital), and a negative one is added in
  full to capital while \<open>bot_balance_usdt\<close> keeps its value.
\<close>

theorem daily_rollover_once_per_date:
  "(today \<noteq> [] \<longrightarrow>
      ensure_daily_rollover mbb2 today (ensure_daily_rollover mbb today s)
        = ensure_daily_rollover mbb today s)
   \<and> (today \<noteq> [] \<and> daily_date s = Some today \<longrightarrow> ensure_daily_rollover mbb today s = s)
   \<and> (\<forall>dt. daily_date s = Some dt \<and> last_profit_split_date s = Some dt \<longrightarrow>
          apply_daily_profit_split mbb s = s)
   \<and> apply_daily_profit_split mbb2 (apply_daily_profit_split mbb s) = apply_daily_profit_split mbb s
   \<and> (\<forall>dt. daily_date s = Some dt \<and> dt \<noteq> [] \<and> last_profit_split_date s \<noteq> Some dt \<longrightarrow>
        last_profit_split_date (apply_daily_profit_split mbb s) = Some dt
        \<and> (0 < or_default (realized_pnl_today s) 0 \<longrightarrow>
             bot_balance_usdt (apply_daily_profit_split mbb s)
               = Some (or_default (bot_balance_usdt s) 0 + or_default (realized_pnl_today s) 0 / 2)
             \<and> capital_usdt (apply_daily_profit_split mbb s)
               = Some (or_default (capital_usdt s) mbb + or_default (realized_pnl_today s) 0 / 2))
        \<and> (or_default (realized_pnl_today s) 0 < 0 \<longrightarrow>
             bot_balance_usdt (apply_daily_profit_split mbb s)
               = Some (or_default (bot_balance_usdt s) 0)
             \<and> capital_usdt (apply_daily_profit_split mbb s)
               = Some (or_default (capital_usdt s) mbb + or_default (realized_pnl_today s) 0)))"
proof (intro conjI allI impI)
  assume "today \<noteq> []"
  then show "ensure_daily_rollover mbb2 today (ensure_daily_rollover mbb today s)
        = ensure_daily_rollover mbb today s"
    by (intro rollover_same_date rollover_date)
next
  assume "today \<noteq> [] \<and> daily_date s = Some today"
  then show "ensure_daily_rollover mbb today s = s" by (simp add: rollover_same_date)
next
  fix dt assume "daily_date s = Some dt \<and> last_profit_split_date s = Some dt"
  then show "apply_daily_profit_split mbb s = s" by (simp add: split_marked)
next
  show "apply_daily_profit_split mbb2 (apply_daily_profit_split mbb s) = apply_daily_profit_split mbb s"
    by (auto simp: apply_daily_profit_split_def Let_def split: option.splits)
next
  fix dt
  assume a: "daily_date s = Some dt \<and> dt \<noteq> [] \<and> last_profit_split_date s \<noteq> Some dt"
  then have e: "apply_daily_profit_split mbb s = s\<lparr>capital_usdt := Some (let pnl = or_default (realized_pnl_today s) 0;
                                       capital = or_default (capital_usdt s) mbb
                                   in if 0 < pnl then capital + pnl / 2
                                      else if pnl < 0 then capital + pnl else capital),
             bot_balance_usdt := Some (let pnl = or_default (realized_pnl_today s) 0;
                                           bot_bal = or_default (bot_balance_usdt s) 0
                                       in if 0 < pnl then bot_bal + pnl / 2 else bot_bal),
             last_profit_split_date := Some dt\<rparr>"
    using split_applies[of s dt mbb] by blast
  show "last_profit_split_date (apply_daily_profit_split mbb s) = Some dt" by (simp add: e)
  { assume "0 < or_default (realized_pnl_today s) 0"
    then show "bot_balance_usdt (apply_daily_profit_split mbb s)
               = Some (or_default (bot_balance_usdt s) 0 + or_default (realized_pnl_today s) 0 / 2)"
      and "capital_usdt (apply_daily_profit_split mbb s)
               = Some (or_default (capital_usdt s) mbb + or_default (realized_pnl_today s) 0 / 2)"
      by (simp_all add: e Let_def) }
  { assume "or_default (realized_pnl_today s) 0 < 0"
    then show "bot_balance_usdt (apply_daily_profit_split mbb s)
               = Some (or_default (bot_balance_usdt s) 0)"
      and "capital_usdt (apply_daily_profit_split mbb s)
               = Some (or_default (capital_usdt s) mbb + or_default (realized_pnl_today s) 0)"
      by (simp_all add: e Let_def) }
qed

theorem daily_rollover_once_per_date_witness:
  "''2024-01-02'' \<noteq> []
   \<and> ensure_daily_rollover 1000 ''2024-01-02'' sample_state
       = sample_state\<lparr>capital_usdt := Some 1004, bot_balance_usdt := Some 4,
            last_profit_split_date := Some ''2024-01-01'', realized_pnl_today := Some 0,
            daily_date := Some ''2024-01-02'', daily_start_equity := Some 1000\<rparr>
   \<and> ensure_daily_rollover 1000 ''2024-01-02'' (ensure_daily_rollover 1000 ''2024-01-02'' sample_state)
       = ensure_daily_rollover 1000 ''2024-01-02'' sample_state
   \<and> daily_date sample_state = Some ''2024-01-01''
   \<and> ensure_daily_rollover 1000 ''2024-01-01'' sample_state = sample_state
   \<and> last_profit_split_date sample_state \<noteq> Some ''2024-01-01''
   \<and> (0::real) < or_default (realized_pnl_today sample_state) 0
   \<and> bot_balance_usdt (apply_daily_profit_split 1000 sample_state) = Some 4
   \<and> capital_usdt (apply_daily_profit_split 1000 sample_state) = Some 1004
   \<and> or_default (realized_pnl_today (sample_state\<lparr>realized_pnl_today := Some (-6)\<rparr>)) 0 < 0
   \<and> bot_balance_usdt (apply_daily_profit_split 1000 (sample_state\<lparr>realized_pnl_today := Some (-6)\<rparr>)) = Some 0
   \<and> capital_usdt (apply_daily_profit_split 1000 (sample_state\<lparr>realized_pnl_today := Some (-6)\<rparr>)) = Some 994
   \<and> apply_daily_profit_split 1000 (apply_daily_profit_split 1000 sample_state)
       = apply_daily_profit_split 1000 sample_state"
  using daily_rollover_once_per_date[of "''2024-01-02''" 1000 1000 sample_state]
    daily_rollover_once_per_date[of "''2024-01-01''" 1000 1000 sample_state]
    daily_rollover_once_per_date[of "''2024-01-01''" 1000 1000 "sample_state\<lparr>realized_pnl_today := Some (-6)\<rparr>"]
  by (simp add: sample_state_def ensure_daily_rollover_def apply_daily_profit_split_def
        or_default_def Let_def)

section \<open>Properties of the execution core\<close>

lemma execute_close_positions:
  "positions (execute_close e ex i price reason) = positions e \<or>
   positions (execute_close e ex i price reason)
     = fst (close_position (positions e) i price reason None (ex_now ex))"
  by (auto simp: execute_close_def Let_def split: option.splits prod.splits)

lemma execute_close_paper_mode [simp]:
  "paper_mode (execute_close e ex i price reason) = paper_mode e"
  by (auto simp: execute_close_def Let_def split: option.splits prod.splits)

lemma execute_close_settings [simp]:
  "eng_settings (execute_close e ex i price reason) = eng_settings e"
  by (auto simp: execute_close_def Let_def split: option.splits prod.splits)

lemma execute_close_inv:
  assumes "wf_ledger (positions e) \<and> one_bot_per_symbol (positions e)"
  shows "wf_ledger (positions (execute_close e ex i price reason))
       \<and> one_bot_per_symbol (positions (execute_close e ex i price reason))"
  using execute_close_positions[of e ex i price reason] assms
  by (auto simp: wf_close one_bot_close)

lemma execute_close_keys:
  "set (open_positions (positions (execute_close e ex i price reason)))
     \<subseteq> set (open_positions (positions e))"
  using execute_close_positions[of e ex i price reason]
  by (auto dest: mem_close)

lemma close_all_inv:
  "wf_ledger (positions e) \<and> one_bot_per_symbol (positions e) \<Longrightarrow>
   wf_ledger (positions (close_all e ex price recs))
   \<and> one_bot_per_symbol (positions (close_all e ex price recs))"
  unfolding close_all_def
proof (induction recs arbitrary: e)
  case Nil
  then show ?case by simp
next
  case (Cons r recs)
  show ?case using Cons.IH[OF execute_close_inv[OF Cons.prems]] by simp
qed

lemma close_all_keys:
  "set (open_positions (positions (close_all e ex price recs)))
     \<subseteq> set (open_positions (positions e))"
  unfolding close_all_def
proof (induction recs arbitrary: e)
  case Nil
  then show ?case by simp
next
  case (Cons r recs)
  show ?case using Cons.IH[of "execute_close e ex (fst r) price (snd r)"]
      execute_close_keys[of e ex "fst r" price "snd r"] by auto
qed

lemma debit_and_open_positions:
  "positions (fst (debit_and_open e ex s price q tp sl ut tr tags)) = positions e \<or>
   (\<exists>c a L' p. open_position c (positions e) a = Inr (L', p)
        \<and> positions (fst (debit_and_open e ex s price q tp sl ut tr tags)) = L')"
  by (auto simp: debit_and_open_def Let_def split: sum.splits prod.splits)

lemma init_client_positions [simp]:
  "positions (init_live_client_if_needed e ex) = positions e"
  by (simp add: init_live_client_if_needed_def)

lemma execute_entry_positions:
  "positions (fst (execute_entry e ex s price q tp sl ut tr tags)) = positions e \<or>
   (\<exists>c a L' p. open_position c (positions e) a = Inr (L', p)
        \<and> positions (fst (execute_entry e ex s price q tp sl ut tr tags)) = L')"
proof (cases "paper_mode e")
  case True
  then show ?thesis
    using debit_and_open_positions[of e ex "upper s" price q tp sl ut tr tags]
    by (simp add: execute_entry_def Let_def)
next
  case False
  let ?e1 = "init_live_client_if_needed e ex"
  show ?thesis
  proof (cases "client ?e1")
    case c: False
    with False show ?thesis by (simp add: execute_entry_def Let_def)
  next
    case c: True
    show ?thesis
    proof (cases "ex_buy_fill ex")
      case None
      with False c show ?thesis by (simp add: execute_entry_def Let_def)
    next
      case (Some fq)
      obtain f cq where fq: "fq = (f, cq)" by (cases fq)
      show ?thesis
      proof (cases "0 < f")
        case f0: True
        show ?thesis
        proof (cases "0 < cq")
          case True
          with False c Some fq f0 show ?thesis
            using debit_and_open_positions[of ?e1 ex "upper s" "cq / f" f tp sl ut tr tags]
            by (simp add: execute_entry_def Let_def)
        next
          case n: False
          with False c Some fq show ?thesis
            using debit_and_open_positions[of ?e1 ex "upper s" price q tp sl ut tr tags]
            by (simp add: execute_entry_def Let_def)
        qed
      next
        case n: False
        with False c Some fq show ?thesis
          using debit_and_open_positions[of ?e1 ex "upper s" price q tp sl ut tr tags]
          by (simp add: execute_entry_def Let_def)
      qed
    qed
  qed
qed

lemma execute_entry_inv:
  assumes "wf_ledger (positions e) \<and> one_bot_per_symbol (positions e)"
  shows "wf_ledger (positions (fst (execute_entry e ex s price q tp sl ut tr tags)))
       \<and> one_bot_per_symbol (positions (fst (execute_entry e ex s price q tp sl ut tr tags)))"
  using execute_entry_positions[of e ex s price q tp sl ut tr tags] assms
  by (auto dest: wf_open one_bot_open)

lemma update_price_inv:
  "wf_ledger L \<and> one_bot_per_symbol L \<Longrightarrow>
   wf_ledger (update_price L s price) \<and> one_bot_per_symbol (update_price L s price)"
  by (simp add: wf_update_price one_bot_update_price)

lemma try_entry_unfold:
  "try_entry e2 ex d nsym lp =
     (if d_requested_trade_usdt d \<le> 0 then (e2, Some ''REQ_USDT_ZERO'')
      else if paper_mode e2 \<and> or_default (paper_balance_usdt (st e2)) 0 \<le> 0
      then (e2, Some ''PAPER_BAL_ZERO'')
      else if (if paper_mode e2
               then min (d_requested_trade_usdt d) (or_default (paper_balance_usdt (st e2)) 0)
               else d_requested_trade_usdt d)
              < (case cfg_min_trade_usdt (eng_settings e2) of None \<Rightarrow> 2 | Some m \<Rightarrow> m)
      then (e2, Some ''MIN_TRADE_BLOCK'')
      else if normalize_quantity e2 ex
                ((if paper_mode e2
                  then min (d_requested_trade_usdt d) (or_default (paper_balance_usdt (st e2)) 0)
                  else d_requested_trade_usdt d) / lp) lp \<le> 0
      then (e2, Some ''QTY_NORMALIZE_ZERO'')
      else execute_entry e2 ex nsym lp
             (normalize_quantity e2 ex
                ((if paper_mode e2
                  then min (d_requested_trade_usdt d) (or_default (paper_balance_usdt (st e2)) 0)
                  else d_requested_trade_usdt d) / lp) lp)
             (case truthy (d_tp_pct d) of None \<Rightarrow> None
              | Some pct \<Rightarrow> Some (lp * (1 + pct / 100)))
             (case truthy (d_sl_pct d) of None \<Rightarrow> None
              | Some pct \<Rightarrow> Some (lp * (1 - pct / 100)))
             (d_use_trailing d) (d_trailing_sl_pct d) (d_reason_tags d))"
  unfolding try_entry_def Let_def by (rule refl)

lemma try_entry_cases:
  "fst (try_entry e2 ex d nsym lp) = e2 \<or>
   (\<exists>q tp sl. try_entry e2 ex d nsym lp
       = execute_entry e2 ex nsym lp q tp sl (d_use_trailing d) (d_trailing_sl_pct d) (d_reason_tags d))"
  unfolding try_entry_unfold by (simp only: fst_conv split: if_split) blast

lemma tick_and_exits_inv:
  assumes "wf_ledger (positions e) \<and> one_bot_per_symbol (positions e)"
  shows "wf_ledger (positions (tick_and_exits e ex s lp))
       \<and> one_bot_per_symbol (positions (tick_and_exits e ex s lp))"
  unfolding tick_and_exits_def Let_def
  by (rule close_all_inv) (simp add: update_price_inv[OF assms])

lemma tick_and_exits_keys:
  "fst ` set (open_positions (positions (tick_and_exits e ex s lp)))
     \<subseteq> fst ` set (open_positions (positions e))"
proof -
  have "set (open_positions (positions (tick_and_exits e ex s lp)))
          \<subseteq> set (open_positions (update_price (positions e) s lp))"
    unfolding tick_and_exits_def Let_def
    using close_all_keys[of "e\<lparr>positions := update_price (positions e) s lp\<rparr>" ex lp] by simp
  then have "fst ` set (open_positions (positions (tick_and_exits e ex s lp)))
          \<subseteq> set (map fst (open_positions (update_price (positions e) s lp)))"
    by auto
  then show ?thesis unfolding keys_update_price by simp
qed

lemma apply_ai_decision_shape:
  "fst (apply_ai_decision e ex d) = e \<or>
   (\<exists>lp. fst (apply_ai_decision e ex d) = tick_and_exits e ex (upper (d_symbol d)) lp
       \<or> (\<exists>recs. fst (apply_ai_decision e ex d)
                    = close_all (tick_and_exits e ex (upper (d_symbol d)) lp) ex lp recs)
       \<or> (\<exists>s price q tp sl ut tr tags.
              apply_ai_decision e ex d
                = execute_entry (tick_and_exits e ex (upper (d_symbol d)) lp) ex s price q tp sl ut tr tags))"
proof -
  let ?n = "upper (d_symbol d)"
  let ?lp = "or_default (map_of (prices e) ?n) 0"
  let ?e2 = "tick_and_exits e ex ?n ?lp"
  let ?bots = "filter (\<lambda>p. symbol p = ?n \<and> source p = ''bot'')
                 (get_open_positions (update_price (positions e) ?n ?lp))"
  consider (a) "?n = [] \<or> ?lp \<le> 0"
    | (b) "?n \<noteq> []" "0 < ?lp" "d_action d = ''EXIT'' \<and> ?bots \<noteq> []"
    | (c) "?n \<noteq> []" "0 < ?lp" "\<not> (d_action d = ''EXIT'' \<and> ?bots \<noteq> [])"
          "d_action d \<noteq> ''ENTRY'' \<or> \<not> fst (check_new_position (risk ?e2) (ex_now ex) ?n
              (get_open_positions (update_price (positions e) ?n ?lp))) \<or> ?bots \<noteq> []"
    | (d) "?n \<noteq> []" "0 < ?lp" "\<not> (d_action d = ''EXIT'' \<and> ?bots \<noteq> [])"
          "d_action d = ''ENTRY''" "fst (check_new_position (risk ?e2) (ex_now ex) ?n
              (get_open_positions (update_price (positions e) ?n ?lp)))" "?bots = []"
    by fastforce
  then show ?thesis
  proof cases
    case a
    then have "fst (apply_ai_decision e ex d) = e"
      by (auto simp: apply_ai_decision_def Let_def)
    then show ?thesis ..
  next
    case b
    then have "fst (apply_ai_decision e ex d)
        = close_all ?e2 ex ?lp (map (\<lambda>p. (pos_id p, ''AI_EXIT'')) ?bots)"
      by (simp add: apply_ai_decision_def Let_def)
    then show ?thesis by blast
  next
    case c
    then have "fst (apply_ai_decision e ex d) = ?e2"
      by (auto simp: apply_ai_decision_def Let_def)
    then show ?thesis by blast
  next
    case d
    then have t: "apply_ai_decision e ex d = try_entry ?e2 ex d ?n ?lp"
      by (simp add: apply_ai_decision_def Let_def)
    from try_entry_cases[of ?e2 ex d ?n ?lp] show ?thesis
    proof
      assume "fst (try_entry ?e2 ex d ?n ?lp) = ?e2"
      with t show ?thesis by auto
    next
      assume "\<exists>q tp sl. try_entry ?e2 ex d ?n ?lp
       = execute_entry ?e2 ex ?n ?lp q tp sl (d_use_trailing d) (d_trailing_sl_pct d) (d_reason_tags d)"
      with t show ?thesis by metis
    qed
  qed
qed

lemma apply_ai_decision_inv:
  assumes "wf_ledger (positions e) \<and> one_bot_per_symbol (positions e)"
  shows "wf_ledger (positions (fst (apply_ai_decision e ex d)))
       \<and> one_bot_per_symbol (positions (fst (apply_ai_decision e ex d)))"
proof -
  note t = tick_and_exits_inv[OF assms]
  from apply_ai_decision_shape[of e ex d] show ?thesis
  proof (elim disjE exE)
    assume "fst (apply_ai_decision e ex d) = e"
    with assms show ?thesis by simp
  next
    fix lp assume "fst (apply_ai_decision e ex d) = tick_and_exits e ex (upper (d_symbol d)) lp"
    with t show ?thesis by simp
  next
    fix lp recs
    assume "fst (apply_ai_decision e ex d)
                    = close_all (tick_and_exits e ex (upper (d_symbol d)) lp) ex lp recs"
    with close_all_inv[OF t] show ?thesis by simp
  next
    fix lp s price q tp sl ut tr tags
    assume "apply_ai_decision e ex d
                = execute_entry (tick_and_exits e ex (upper (d_symbol d)) lp) ex s price q tp sl ut tr tags"
    with execute_entry_inv[OF t] show ?thesis by simp
  qed
qed

subsection \<open>The paper-balance scenario\<close>

lemmas engine_eval_defs = apply_ai_decision_def try_entry_def tick_and_exits_def close_all_def
  execute_entry_def debit_and_open_def entry_args_def execute_close_def normalize_quantity_def
  fmt_fixed_def round_half_even_def check_new_position_def on_position_closed_def
  get_open_positions_def paper_engine_def sample_exchange_def entry_decision_def
  sample_risk_def sample_state_def init_live_client_if_needed_def

lemma debit_and_open_insufficient:
  "paper_mode e \<Longrightarrow> or_default (paper_balance_usdt (st e)) 0 + 1 / 10 ^ 9 < price * q \<Longrightarrow>
   debit_and_open e ex s price q tp sl ut tr tags = (e, Some ''PAPER_INSUFFICIENT_BAL'')"
  by (simp add: debit_and_open_def Let_def)

lemma execute_entry_paper:
  "paper_mode e \<Longrightarrow> execute_entry e ex s price q tp sl ut tr tags
     = debit_and_open e ex (upper s) price q tp sl ut tr tags"
  by (simp add: execute_entry_def Let_def)

lemma debit_and_open_balance:
  assumes "paper_mode e"
  shows "st (fst (debit_and_open e ex s price q tp sl ut tr tags)) = st e \<or>
         (\<exists>b. 0 \<le> b \<and> st (fst (debit_and_open e ex s price q tp sl ut tr tags))
                  = (st e)\<lparr>paper_balance_usdt := Some b\<rparr>)"
proof (cases "or_default (paper_balance_usdt (st e)) 0 + 1 / 10 ^ 9 < price * q")
  case True
  then show ?thesis using assms by (simp add: debit_and_open_insufficient)
next
  case False
  let ?b = "max 0 (or_default (paper_balance_usdt (st e)) 0 - price * q)"
  have "st (fst (debit_and_open e ex s price q tp sl ut tr tags))
                  = (st e)\<lparr>paper_balance_usdt := Some ?b\<rparr>"
    using False assms by (simp add: debit_and_open_def Let_def split: sum.splits prod.splits)
  moreover have "0 \<le> ?b" by simp
  ultimately show ?thesis by blast
qed

lemma scenario_quantity: "fmt_fixed 6 (5 / 65000) = 77 / 1000000"
  by (simp add: fmt_fixed_def round_half_even_def Let_def)

lemma scenario_tick:
  "tick_and_exits (paper_engine bal px) ex s lp = paper_engine bal px"
  by (simp add: tick_and_exits_def close_all_def paper_engine_def empty_ledger_def
        update_price_def check_exit_recommendations_def List.map_filter_def Let_def)

lemma scenario_try_entry:
  "try_entry (paper_engine 5 65000) ex entry_decision ''BTCUSDT'' 65000
     = (paper_engine 5 65000, Some ''PAPER_INSUFFICIENT_BAL'')"
proof -
  have pm: "paper_mode (paper_engine 5 65000)" by (simp add: paper_engine_def)
  have bal: "or_default (paper_balance_usdt (st (paper_engine 5 65000))) 0 = 5"
    by (simp add: paper_engine_def or_default_def)
  have mt: "cfg_min_trade_usdt (eng_settings (paper_engine 5 65000)) = Some 2"
    by (simp add: paper_engine_def default_settings_def)
  have nq: "normalize_quantity (paper_engine 5 65000) ex (1 / 13000) 65000 = 77 / 1000000"
    using scenario_quantity by (simp add: normalize_quantity_def pm)
  have rq: "d_requested_trade_usdt entry_decision = 10" by (simp add: entry_decision_def)
  have "try_entry (paper_engine 5 65000) ex entry_decision ''BTCUSDT'' 65000
     = execute_entry (paper_engine 5 65000) ex ''BTCUSDT'' 65000 (77 / 1000000)
         (case truthy (d_tp_pct entry_decision) of None \<Rightarrow> None
              | Some pct \<Rightarrow> Some (65000 * (1 + pct / 100)))
             (case truthy (d_sl_pct entry_decision) of None \<Rightarrow> None
              | Some pct \<Rightarrow> Some (65000 * (1 - pct / 100)))
             (d_use_trailing entry_decision) (d_trailing_sl_pct entry_decision)
             (d_reason_tags entry_decision)"
    unfolding try_entry_unfold by (simp add: pm bal mt rq nq)
  also have "\<dots> = (paper_engine 5 65000, Some ''PAPER_INSUFFICIENT_BAL'')"
    unfolding execute_entry_paper[OF pm]
    by (rule debit_and_open_insufficient[OF pm]) (simp add: bal)
  finally show ?thesis .
qed

lemma scenario_apply:
  "fst (apply_ai_decision (paper_engine 5 65000) ex entry_decision) = paper_engine 5 65000
   \<and> (snd (apply_ai_decision (paper_engine 5 65000) ex entry_decision) = Some ''RISK_BLOCK''
      \<or> snd (apply_ai_decision (paper_engine 5 65000) ex entry_decision)
           = Some ''PAPER_INSUFFICIENT_BAL'')"
proof -
  have n: "upper (d_symbol entry_decision) = ''BTCUSDT''"
    by (simp add: entry_decision_def upper_def to_upper_def)
  have lp: "or_default (map_of (prices (paper_engine 5 65000)) ''BTCUSDT'') 0 = 65000"
    by (simp add: paper_engine_def or_default_def)
  have bots: "get_open_positions (update_price (positions (paper_engine 5 65000)) ''BTCUSDT'' 65000) = []"
    by (simp add: get_open_positions_def update_price_def paper_engine_def empty_ledger_def Let_def)
  have act: "d_action entry_decision = ''ENTRY''" by (simp add: entry_decision_def)
  show ?thesis
    unfolding apply_ai_decision_def Let_def n lp bots scenario_tick act
    by (simp add: scenario_try_entry)
qed

subsection \<open>Clipping by the paper balance\<close>

lemma try_entry_clip:
  assumes "paper_mode e2" "0 < or_default (paper_balance_usdt (st e2)) 0"
    "or_default (paper_balance_usdt (st e2)) 0 < d_requested_trade_usdt d"
  shows "try_entry e2 ex d nsym lp
       = try_entry e2 ex (d\<lparr>d_requested_trade_usdt := or_default (paper_balance_usdt (st e2)) 0\<rparr>) nsym lp"
  using assms unfolding try_entry_unfold by (simp add: min_def)

lemma execute_entry_nonneg:
  assumes "paper_mode e" "0 \<le> or_default (paper_balance_usdt (st e)) 0"
  shows "0 \<le> or_default (paper_balance_usdt (st (fst (execute_entry e ex s price q tp sl ut tr tags)))) 0"
  using debit_and_open_balance[OF assms(1), of ex "upper s" price q tp sl ut tr tags] assms
  by (auto simp: execute_entry_paper or_default_def)

lemma counter_quantity: "fmt_fixed 6 (5 / 4) = 5 / 4"
  by (simp add: fmt_fixed_def round_half_even_def Let_def)

lemma clip_apply:
  "apply_ai_decision (paper_engine 5 4) sample_exchange entry_decision
     = try_entry (paper_engine 5 4) sample_exchange entry_decision ''BTCUSDT'' 4"
proof -
  have n: "upper (d_symbol entry_decision) = ''BTCUSDT''"
    by (simp add: entry_decision_def upper_def to_upper_def)
  have lp: "or_default (map_of (prices (paper_engine 5 4)) ''BTCUSDT'') 0 = 4"
    by (simp add: paper_engine_def or_default_def)
  have bots: "get_open_positions (update_price (positions (paper_engine 5 4)) ''BTCUSDT'' 4) = []"
    by (simp add: get_open_positions_def update_price_def paper_engine_def empty_ledger_def Let_def)
  have act: "d_action entry_decision = ''ENTRY''" by (simp add: entry_decision_def)
  have rk: "fst (check_new_position (risk (paper_engine 5 4)) (ex_now sample_exchange) ''BTCUSDT'' [])"
    by (simp add: check_new_position_def paper_engine_def sample_risk_def sample_exchange_def Let_def)
  show ?thesis
    unfolding apply_ai_decision_def Let_def n lp bots scenario_tick act
    using rk by simp
qed

lemma clip_try_entry:
  "try_entry (paper_engine 5 4) sample_exchange entry_decision ''BTCUSDT'' 4
     = execute_entry (paper_engine 5 4) sample_exchange ''BTCUSDT'' 4 (5 / 4)
         (Some (103 / 25)) (Some (98 / 25)) False 1 []"
proof -
  have pm: "paper_mode (paper_engine 5 4)" by (simp add: paper_engine_def)
  have bal: "or_default (paper_balance_usdt (st (paper_engine 5 4))) 0 = 5"
    by (simp add: paper_engine_def or_default_def)
  have mt: "cfg_min_trade_usdt (eng_settings (paper_engine 5 4)) = Some 2"
    by (simp add: paper_engine_def default_settings_def)
  have nq: "normalize_quantity (paper_engine 5 4) sample_exchange (5 / 4) 4 = 5 / 4"
    using counter_quantity by (simp add: normalize_quantity_def pm)
  show ?thesis
    unfolding try_entry_unfold
    by (simp add: pm bal mt nq entry_decision_def truthy_def)
qed

lemma clip_execute:
  "execute_entry (paper_engine 5 4) sample_exchange ''BTCUSDT'' 4 (5 / 4)
         (Some (103 / 25)) (Some (98 / 25)) False 1 []
   = ((paper_engine 0 4)\<lparr>positions := \<lparr>open_positions = [(''p1'',
         \<lparr>pos_id = ''p1'', symbol = ''BTCUSDT'', source = ''bot'', entry_price = 4,
          qty = 5 / 4, current_price = 4, pnl_usdt = 0, pnl_percent = 0,
          tp_price = Some (103 / 25), sl_price = Some (98 / 25), use_trailing = False,
          trailing_sl_pct = 1, peak_price = 4, status = ''open'', mode = ''paper'',
          opened_at = 1000, closed_at = None, exit_reason = None, meta = []\<rparr>)],
        closed_positions = []\<rparr>\<rparr>, None)"
  by (simp add: execute_entry_def debit_and_open_def entry_args_def paper_engine_def
        sample_exchange_def sample_state_def default_settings_def empty_ledger_def
        open_position_def new_position_def fallback_settings_def has_open_bot_position_def
        upper_def lower_def strip_def to_upper_def to_lower_def is_space_def
        or_default_def truthy_def Let_def)

lemma close_all_paper_mode: "paper_mode (close_all e ex price recs) = paper_mode e"
  unfolding close_all_def
  by (induction recs arbitrary: e) simp_all

lemma tick_and_exits_paper_mode: "paper_mode (tick_and_exits e ex s lp) = paper_mode e"
  by (simp add: tick_and_exits_def Let_def close_all_paper_mode)

text \<open>The paper balance that the sizing step of \<open>_apply_ai_decision\<close> reads: the one left
  by the price tick and the exits of the same call.\<close>

lemma apply_ai_decision_clip:
  assumes pm: "paper_mode e"
    and pos: "0 < or_default (paper_balance_usdt (st (tick_and_exits e ex (upper (d_symbol d))
                  (or_default (map_of (prices e) (upper (d_symbol d))) 0)))) 0"
    and over: "or_default (paper_balance_usdt (st (tick_and_exits e ex (upper (d_symbol d))
                  (or_default (map_of (prices e) (upper (d_symbol d))) 0)))) 0
                < d_requested_trade_usdt d"
  shows "apply_ai_decision e ex d
       = apply_ai_decision e ex
           (d\<lparr>d_requested_trade_usdt :=
                or_default (paper_balance_usdt (st (tick_and_exits e ex (upper (d_symbol d))
                  (or_default (map_of (prices e) (upper (d_symbol d))) 0)))) 0\<rparr>)"
proof -
  let ?n = "upper (d_symbol d)"
  let ?lp = "or_default (map_of (prices e) ?n) 0"
  let ?e2 = "tick_and_exits e ex ?n ?lp"
  have pm2: "paper_mode ?e2" using pm by (simp add: tick_and_exits_paper_mode)
  have t: "try_entry ?e2 ex d ?n ?lp
         = try_entry ?e2 ex (d\<lparr>d_requested_trade_usdt := or_default (paper_balance_usdt (st ?e2)) 0\<rparr>)
             ?n ?lp"
    by (rule try_entry_clip[OF pm2 pos over])
  show ?thesis
    unfolding apply_ai_decision_def Let_def by (simp add: t)
qed

subsection \<open>Claims about paper entries\<close>

text \<open>
  Claim C1, as amended. In paper mode a request above a positive paper balance is
  clipped to the balance: \<open>_apply_ai_decision\<close> behaves exactly as for a request equal to
  the paper balance it reads (the one left by the tick and the exits of the same call),
  and so does its sizing step taken alone. When the paper balance is 0 or less, the
  sizing step, reached after the risk gate and the duplicate check, rejects a positive
  request with code \<open>PAPER_BAL_ZERO\<close> and changes nothing. \<open>_execute_entry\<close> rejects with
  code \<open>PAPER_INSUFFICIENT_BAL\<close> and no side effect an entry whose value \<open>price * qty\<close>
  exceeds the paper balance by more than \<open>1e-9\<close>, and never makes a non-negative paper
  balance negative. With paper balance 5, a request of 10 on BTCUSDT at 65000 and no
  open position the entry is rejected and the engine is unchanged: the clipped 5 USDT
  gives the quantity 0.000077, worth 5.005.
\<close>

theorem paper_overdraw_clipped_then_checked:
  "(paper_mode e \<and> 0 < or_default (paper_balance_usdt (st e)) 0
      \<and> or_default (paper_balance_usdt (st e)) 0 < d_requested_trade_usdt d \<longrightarrow>
      try_entry e ex d nsym lp
        = try_entry e ex (d\<lparr>d_requested_trade_usdt := or_default (paper_balance_usdt (st e)) 0\<rparr>)
            nsym lp)
   \<and> (paper_mode e
        \<and> 0 < or_default (paper_balance_usdt (st (tick_and_exits e ex (upper (d_symbol d))
                  (or_default (map_of (prices e) (upper (d_symbol d))) 0)))) 0
        \<and> or_default (paper_balance_usdt (st (tick_and_exits e ex (upper (d_symbol d))
                  (or_default (map_of (prices e) (upper (d_symbol d))) 0)))) 0
              < d_requested_trade_usdt d \<longrightarrow>
        apply_ai_decision e ex d
          = apply_ai_decision e ex
              (d\<lparr>d_requested_trade_usdt :=
                   or_default (paper_balance_usdt (st (tick_and_exits e ex (upper (d_symbol d))
                     (or_default (map_of (prices e) (upper (d_symbol d))) 0)))) 0\<rparr>))
   \<and> (paper_mode e \<and> 0 < d_requested_trade_usdt d
        \<and> or_default (paper_balance_usdt (st e)) 0 \<le> 0 \<longrightarrow>
        try_entry e ex d nsym lp = (e, Some ''PAPER_BAL_ZERO''))
   \<and> (paper_mode e \<and> or_default (paper_balance_usdt (st e)) 0 + 1 / 10 ^ 9 < price * q \<longrightarrow>
        execute_entry e ex s price q tp sl ut tr tags = (e, Some ''PAPER_INSUFFICIENT_BAL''))
   \<and> (paper_mode e \<and> 0 \<le> or_default (paper_balance_usdt (st e)) 0 \<longrightarrow>
        0 \<le> or_default (paper_balance_usdt
                 (st (fst (execute_entry e ex s price q tp sl ut tr tags)))) 0)
   \<and> fst (apply_ai_decision (paper_engine 5 65000) ex entry_decision) = paper_engine 5 65000
   \<and> (snd (apply_ai_decision (paper_engine 5 65000) ex entry_decision) = Some ''RISK_BLOCK''
      \<or> snd (apply_ai_decision (paper_engine 5 65000) ex entry_decision)
           = Some ''PAPER_INSUFFICIENT_BAL'')
   \<and> try_entry (paper_engine 5 65000) ex entry_decision ''BTCUSDT'' 65000
        = (paper_engine 5 65000, Some ''PAPER_INSUFFICIENT_BAL'')"
proof (intro conjI impI)
  assume "paper_mode e \<and> 0 < or_default (paper_balance_usdt (st e)) 0
      \<and> or_default (paper_balance_usdt (st e)) 0 < d_requested_trade_usdt d"
  then show "try_entry e ex d nsym lp
        = try_entry e ex (d\<lparr>d_requested_trade_usdt := or_default (paper_balance_usdt (st e)) 0\<rparr>)
            nsym lp"
    using try_entry_clip by blast
next
  assume "paper_mode e
        \<and> 0 < or_default (paper_balance_usdt (st (tick_and_exits e ex (upper (d_symbol d))
                  (or_default (map_of (prices e) (upper (d_symbol d))) 0)))) 0
        \<and> or_default (paper_balance_usdt (st (tick_and_exits e ex (upper (d_symbol d))
                  (or_default (map_of (prices e) (upper (d_symbol d))) 0)))) 0
              < d_requested_trade_usdt d"
  then show "apply_ai_decision e ex d
          = apply_ai_decision e ex
              (d\<lparr>d_requested_trade_usdt :=
                   or_default (paper_balance_usdt (st (tick_and_exits e ex (upper (d_symbol d))
                     (or_default (map_of (prices e) (upper (d_symbol d))) 0)))) 0\<rparr>)"
    using apply_ai_decision_clip by blast
next
  assume "paper_mode e \<and> 0 < d_requested_trade_usdt d
        \<and> or_default (paper_balance_usdt (st e)) 0 \<le> 0"
  then show "try_entry e ex d nsym lp = (e, Some ''PAPER_BAL_ZERO'')"
    unfolding try_entry_unfold by simp
next
  assume "paper_mode e \<and> or_default (paper_balance_usdt (st e)) 0 + 1 / 10 ^ 9 < price * q"
  then show "execute_entry e ex s price q tp sl ut tr tags = (e, Some ''PAPER_INSUFFICIENT_BAL'')"
    by (simp add: execute_entry_paper debit_and_open_insufficient)
next
  assume "paper_mode e \<and> 0 \<le> or_default (paper_balance_usdt (st e)) 0"
  then show "0 \<le> or_default (paper_balance_usdt
                 (st (fst (execute_entry e ex s price q tp sl ut tr tags)))) 0"
    using execute_entry_nonneg by blast
next
  show "fst (apply_ai_decision (paper_engine 5 65000) ex entry_decision) = paper_engine 5 65000"
    using scenario_apply by blast
  show "snd (apply_ai_decision (paper_engine 5 65000) ex entry_decision) = Some ''RISK_BLOCK''
      \<or> snd (apply_ai_decision (paper_engine 5 65000) ex entry_decision)
           = Some ''PAPER_INSUFFICIENT_BAL''"
    using scenario_apply by blast
  show "try_entry (paper_engine 5 65000) ex entry_decision ''BTCUSDT'' 65000
        = (paper_engine 5 65000, Some ''PAPER_INSUFFICIENT_BAL'')"
    by (rule scenario_try_entry)
qed

theorem paper_overdraw_clipped_then_checked_witness:
  "paper_mode (paper_engine 5 4)
   \<and> (0::real) < or_default (paper_balance_usdt (st (paper_engine 5 4))) 0
   \<and> or_default (paper_balance_usdt (st (paper_engine 5 4))) 0 < d_requested_trade_usdt entry_decision
   \<and> try_entry (paper_engine 5 4) sample_exchange entry_decision ''BTCUSDT'' 4
       = try_entry (paper_engine 5 4) sample_exchange
           (entry_decision\<lparr>d_requested_trade_usdt := 5\<rparr>) ''BTCUSDT'' 4
   \<and> tick_and_exits (paper_engine 5 4) sample_exchange (upper (d_symbol entry_decision))
         (or_default (map_of (prices (paper_engine 5 4)) (upper (d_symbol entry_decision))) 0)
       = paper_engine 5 4
   \<and> apply_ai_decision (paper_engine 5 4) sample_exchange entry_decision
       = apply_ai_decision (paper_engine 5 4) sample_exchange
           (entry_decision\<lparr>d_requested_trade_usdt := 5\<rparr>)
   \<and> paper_mode (paper_engine 0 4) \<and> 0 < d_requested_trade_usdt entry_decision
   \<and> or_default (paper_balance_usdt (st (paper_engine 0 4))) 0 \<le> 0
   \<and> try_entry (paper_engine 0 4) sample_exchange entry_decision ''BTCUSDT'' 4
       = (paper_engine 0 4, Some ''PAPER_BAL_ZERO'')
   \<and> or_default (paper_balance_usdt (st (paper_engine 5 4))) 0 + 1 / 10 ^ 9 < (4::real) * 2
   \<and> execute_entry (paper_engine 5 4) sample_exchange ''BTCUSDT'' 4 2 None None False 0 []
       = (paper_engine 5 4, Some ''PAPER_INSUFFICIENT_BAL'')
   \<and> (0::real) \<le> or_default (paper_balance_usdt (st (fst
         (execute_entry (paper_engine 5 4) sample_exchange ''BTCUSDT'' 4 (5 / 4)
            (Some (103 / 25)) (Some (98 / 25)) False 1 [])))) 0"
  using paper_overdraw_clipped_then_checked[of "paper_engine 5 4" entry_decision sample_exchange
      "''BTCUSDT''" 4 4 2 "''BTCUSDT''" None None False 0 "[]"]
    paper_overdraw_clipped_then_checked[of "paper_engine 0 4" entry_decision sample_exchange
      "''BTCUSDT''" 4 4 2 "''BTCUSDT''" None None False 0 "[]"]
    paper_overdraw_clipped_then_checked[of "paper_engine 5 4" entry_decision sample_exchange
      "''BTCUSDT''" 4 4 "5 / 4" "''BTCUSDT''" "Some (103 / 25)" "Some (98 / 25)" False 1 "[]"]
  by (simp add: scenario_tick) (simp add: paper_engine_def entry_decision_def or_default_def sample_state_def)

text \<open>
  The claim as first stated fails: with paper balance 5, a request of 10 and BTCUSDT at 4
  the request is clipped to 5 and the entry goes through, opening a position of quantity
  1.25 and leaving the paper balance at 0.
\<close>

theorem paper_overdraw_counterexample:
  "or_default (paper_balance_usdt (st (paper_engine 5 4))) 0 < d_requested_trade_usdt entry_decision
   \<and> snd (apply_ai_decision (paper_engine 5 4) sample_exchange entry_decision) = None
   \<and> paper_balance_usdt (st (fst (apply_ai_decision (paper_engine 5 4) sample_exchange entry_decision)))
       = Some 0
   \<and> map (\<lambda>ip. (fst ip, symbol (snd ip), qty (snd ip), entry_price (snd ip)))
        (open_positions (positions (fst
           (apply_ai_decision (paper_engine 5 4) sample_exchange entry_decision))))
       = [(''p1'', ''BTCUSDT'', 5 / 4, 4)]
   \<and> open_positions (positions (paper_engine 5 4)) = []
   \<and> paper_balance_usdt (st (paper_engine 5 4)) = Some 5"
  unfolding clip_apply clip_try_entry clip_execute
  by (simp add: paper_engine_def entry_decision_def or_default_def sample_state_def empty_ledger_def)

subsection \<open>Opening and closing a paper position\<close>

lemma or_default_Some_zero [simp]: "or_default (Some v) 0 = v"
  by (simp add: or_default_def)

lemma paper_entry_opens:
  assumes pm: "paper_mode e" and pr: "0 < price" and qq: "0 < q"
    and ne: "strip (upper s) \<noteq> []"
    and nb: "\<not> has_open_bot_position (positions e) (strip (upper s))"
    and le: "price * q \<le> or_default (paper_balance_usdt (st e)) 0 + 1 / 10 ^ 9"
  shows "execute_entry e ex s price q tp sl ut tr tags =
          (e\<lparr>st := (st e)\<lparr>paper_balance_usdt :=
                      Some (max 0 (or_default (paper_balance_usdt (st e)) 0 - price * q))\<rparr>,
              positions := (positions e)\<lparr>open_positions :=
                 AList.update (ex_new_id ex)
                   (new_position (eng_settings e) (strip (upper s))
                      (entry_args e ex (upper s) price q tp sl ut tr tags))
                   (open_positions (positions e))\<rparr>\<rparr>, None)"
proof -
  let ?a = "entry_args e ex (upper s) price q tp sl ut tr tags"
  let ?e1 = "e\<lparr>st := (st e)\<lparr>paper_balance_usdt :=
                      Some (max 0 (or_default (paper_balance_usdt (st e)) 0 - price * q))\<rparr>\<rparr>"
  have a: "arg_symbol ?a = upper s" "arg_entry_price ?a = price" "arg_qty ?a = q"
    "arg_source ?a = ''bot''" "arg_new_id ?a = ex_new_id ex"
    by (simp_all add: entry_args_def)
  have ea: "entry_args ?e1 ex (upper s) price q tp sl ut tr tags = ?a"
    by (simp add: entry_args_def)
  have op: "open_position (eng_settings e) (positions e) ?a =
     Inr ((positions e)\<lparr>open_positions := AList.update (ex_new_id ex)
             (new_position (eng_settings e) (strip (upper s)) ?a) (open_positions (positions e))\<rparr>,
          new_position (eng_settings e) (strip (upper s)) ?a)"
    using pr qq ne nb by (simp add: open_position_def Let_def a upper_idem)
  have nrej: "\<not> or_default (paper_balance_usdt (st e)) 0 + 1 / 10 ^ 9 < price * q"
    using le by (simp add: not_less)
  have "debit_and_open e ex (upper s) price q tp sl ut tr tags =
          (?e1\<lparr>positions := (positions e)\<lparr>open_positions := AList.update (ex_new_id ex)
             (new_position (eng_settings e) (strip (upper s)) ?a) (open_positions (positions e))\<rparr>\<rparr>, None)"
    unfolding debit_and_open_def Let_def using pm nrej by (simp add: ea op)
  then show ?thesis using pm by (simp add: execute_entry_def Let_def)
qed

lemma close_after_paper_entry:
  assumes pm: "paper_mode e1"
    and p: "map_of (open_positions (positions e1)) i = Some p"
    and src: "source p = ''bot''" and st: "status p = ''open''" and qq: "0 < qty p"
    and bal: "paper_balance_usdt (st e1) = Some b"
  shows "paper_balance_usdt (st (execute_close e1 ex2 i x reason)) = Some (b + qty p * x)"
  using assms by (simp add: execute_close_def close_position_def Let_def)

lemma paper_entry_then_close:
  assumes "paper_mode e" "0 < price" "0 < q" "strip (upper s) \<noteq> []"
    and "\<not> has_open_bot_position (positions e) (strip (upper s))"
    and "price * q \<le> or_default (paper_balance_usdt (st e)) 0 + 1 / 10 ^ 9"
  shows "snd (execute_entry e ex s price q tp sl ut tr tags) = None"
    and "paper_balance_usdt (st (fst (execute_entry e ex s price q tp sl ut tr tags)))
           = Some (max 0 (or_default (paper_balance_usdt (st e)) 0 - price * q))"
    and "map_option (\<lambda>p. (symbol p, source p, entry_price p, qty p, status p))
          (map_of (open_positions (positions (fst (execute_entry e ex s price q tp sl ut tr tags))))
             (ex_new_id ex))
         = Some (strip (upper s), ''bot'', price, q, ''open'')"
    and "paper_balance_usdt (st (execute_close
           (fst (execute_entry e ex s price q tp sl ut tr tags)) ex2 (ex_new_id ex) x reason))
         = Some (max 0 (or_default (paper_balance_usdt (st e)) 0 - price * q) + q * x)"
proof -
  let ?a = "entry_args e ex (upper s) price q tp sl ut tr tags"
  let ?p = "new_position (eng_settings e) (strip (upper s)) ?a"
  let ?e1 = "fst (execute_entry e ex s price q tp sl ut tr tags)"
  let ?b = "or_default (paper_balance_usdt (st e)) 0"
  note ee = paper_entry_opens[OF assms, of ex tp sl ut tr tags]
  have af: "arg_entry_price ?a = price" "arg_qty ?a = q" "arg_source ?a = ''bot''"
    by (simp_all add: entry_args_def)
  have pf: "symbol ?p = strip (upper s)" "source ?p = ''bot''" "entry_price ?p = price"
    "qty ?p = q" "status ?p = ''open''"
    by (simp_all add: new_position_fields af)
  have m: "map_of (open_positions (positions ?e1)) (ex_new_id ex) = Some ?p"
    by (simp add: ee update_conv')
  have pm1: "paper_mode ?e1" using assms(1) by (simp add: ee)
  show b1: "paper_balance_usdt (st ?e1) = Some (max 0 (?b - price * q))" by (simp add: ee)
  show "snd (execute_entry e ex s price q tp sl ut tr tags) = None" by (simp add: ee)
  show "map_option (\<lambda>p. (symbol p, source p, entry_price p, qty p, status p))
          (map_of (open_positions (positions ?e1)) (ex_new_id ex))
         = Some (strip (upper s), ''bot'', price, q, ''open'')"
    by (simp add: m pf)
  show "paper_balance_usdt (st (execute_close ?e1 ex2 (ex_new_id ex) x reason))
              = Some (max 0 (?b - price * q) + q * x)"
    using close_after_paper_entry[OF pm1 m pf(2) pf(5) _ b1, of ex2 x reason] assms(3)
    by (simp add: pf)
qed

text \<open>
  Claim C10, as amended. In paper mode, an entry with positive price and quantity on a
  symbol that is not blank and holds no bot position goes through whenever
  \<open>price * qty\<close> is at most the paper balance \<open>b\<close> plus \<open>1e-9\<close>. It leaves the paper balance
  \<open>max(0, b - price * qty)\<close>, and closing the new position at price \<open>x\<close> leaves
  \<open>max(0, b - price * qty) + qty * x\<close>. These are the expressions the code evaluates in
  floating point; evaluated exactly, for \<open>price * qty \<le> b\<close> the debit is \<open>price * qty\<close> and
  a close at the entry price gives \<open>b\<close> again, and for
  \<open>b < price * qty\<close> the debit is \<open>b\<close> and a close at the entry price gives \<open>price * qty\<close>.
\<close>

theorem paper_open_close_balance:
  assumes "paper_mode e" "0 < price" "0 < q" "strip (upper s) \<noteq> []"
    and "\<not> has_open_bot_position (positions e) (strip (upper s))"
    and "price * q \<le> or_default (paper_balance_usdt (st e)) 0 + 1 / 10 ^ 9"
  shows "snd (execute_entry e ex s price q tp sl ut tr tags) = None
     \<and> paper_balance_usdt (st (fst (execute_entry e ex s price q tp sl ut tr tags)))
         = Some (max 0 (or_default (paper_balance_usdt (st e)) 0 - price * q))
     \<and> map_option (\<lambda>p. (symbol p, source p, entry_price p, qty p, status p))
          (map_of (open_positions (positions (fst (execute_entry e ex s price q tp sl ut tr tags))))
             (ex_new_id ex))
         = Some (strip (upper s), ''bot'', price, q, ''open'')
     \<and> paper_balance_usdt (st (execute_close
           (fst (execute_entry e ex s price q tp sl ut tr tags)) ex2 (ex_new_id ex) x reason))
         = Some (max 0 (or_default (paper_balance_usdt (st e)) 0 - price * q) + q * x)
     \<and> (price * q \<le> or_default (paper_balance_usdt (st e)) 0 \<longrightarrow>
          max 0 (or_default (paper_balance_usdt (st e)) 0 - price * q)
            = or_default (paper_balance_usdt (st e)) 0 - price * q
          \<and> max 0 (or_default (paper_balance_usdt (st e)) 0 - price * q) + q * price
            = or_default (paper_balance_usdt (st e)) 0)
     \<and> (or_default (paper_balance_usdt (st e)) 0 < price * q \<longrightarrow>
          max 0 (or_default (paper_balance_usdt (st e)) 0 - price * q) = 0
          \<and> max 0 (or_default (paper_balance_usdt (st e)) 0 - price * q) + q * price
            = price * q)"
proof (intro conjI impI)
  show "snd (execute_entry e ex s price q tp sl ut tr tags) = None"
    by (rule paper_entry_then_close(1)[OF assms])
  show "paper_balance_usdt (st (fst (execute_entry e ex s price q tp sl ut tr tags)))
         = Some (max 0 (or_default (paper_balance_usdt (st e)) 0 - price * q))"
    by (rule paper_entry_then_close(2)[OF assms])
  show "map_option (\<lambda>p. (symbol p, source p, entry_price p, qty p, status p))
          (map_of (open_positions (positions (fst (execute_entry e ex s price q tp sl ut tr tags))))
             (ex_new_id ex))
         = Some (strip (upper s), ''bot'', price, q, ''open'')"
    by (rule paper_entry_then_close(3)[OF assms])
  show "paper_balance_usdt (st (execute_close
           (fst (execute_entry e ex s price q tp sl ut tr tags)) ex2 (ex_new_id ex) x reason))
         = Some (max 0 (or_default (paper_balance_usdt (st e)) 0 - price * q) + q * x)"
    by (rule paper_entry_then_close(4)[OF assms])
next
  assume "price * q \<le> or_default (paper_balance_usdt (st e)) 0"
  then show "max 0 (or_default (paper_balance_usdt (st e)) 0 - price * q)
            = or_default (paper_balance_usdt (st e)) 0 - price * q"
    "max 0 (or_default (paper_balance_usdt (st e)) 0 - price * q) + q * price
            = or_default (paper_balance_usdt (st e)) 0"
    by (simp_all add: mult.commute)
next
  assume "or_default (paper_balance_usdt (st e)) 0 < price * q"
  then show "max 0 (or_default (paper_balance_usdt (st e)) 0 - price * q) = 0"
    "max 0 (or_default (paper_balance_usdt (st e)) 0 - price * q) + q * price = price * q"
    by (simp_all add: mult.commute)
qed

theorem paper_open_close_balance_witness:
  "paper_mode (paper_engine 1000 100) \<and> (0::real) < 100 \<and> (0::real) < 2
   \<and> strip (upper ''btcusdt'') \<noteq> []
   \<and> \<not> has_open_bot_position (positions (paper_engine 1000 100)) (strip (upper ''btcusdt''))
   \<and> (100::real) * 2 \<le> or_default (paper_balance_usdt (st (paper_engine 1000 100))) 0 + 1 / 10 ^ 9
   \<and> (100::real) * 2 \<le> or_default (paper_balance_usdt (st (paper_engine 1000 100))) 0
   \<and> paper_balance_usdt (st (fst (execute_entry (paper_engine 1000 100) sample_exchange
          ''btcusdt'' 100 2 (Some 103) (Some 98) True 1 []))) = Some 800
   \<and> paper_balance_usdt (st (execute_close
         (fst (execute_entry (paper_engine 1000 100) sample_exchange
            ''btcusdt'' 100 2 (Some 103) (Some 98) True 1 []))
         sample_exchange ''p1'' 100 ''TP'')) = Some 1000
   \<and> paper_balance_usdt (st (execute_close
         (fst (execute_entry (paper_engine 1000 100) sample_exchange
            ''btcusdt'' 100 2 (Some 103) (Some 98) True 1 []))
         sample_exchange ''p1'' 103 ''TP'')) = Some 1006
   \<and> or_default (paper_balance_usdt (st (paper_engine 5 (3 / 10000)))) 0
        < 3 / 10000 * (16666666667 / 1000000)
   \<and> 3 / 10000 * (16666666667 / 1000000)
        \<le> or_default (paper_balance_usdt (st (paper_engine 5 (3 / 10000)))) 0 + 1 / 10 ^ 9
   \<and> paper_balance_usdt (st (fst (execute_entry (paper_engine 5 (3 / 10000)) sample_exchange
          ''btcusdt'' (3 / 10000) (16666666667 / 1000000) None None False 0 []))) = Some 0"
  using paper_open_close_balance[of "paper_engine 1000 100" 100 2 "''btcusdt''" sample_exchange
      "Some 103" "Some 98" True 1 "[]" sample_exchange 100 "''TP''"]
    paper_open_close_balance[of "paper_engine 1000 100" 100 2 "''btcusdt''" sample_exchange
      "Some 103" "Some 98" True 1 "[]" sample_exchange 103 "''TP''"]
    paper_open_close_balance[of "paper_engine 5 (3 / 10000)" "3 / 10000" "16666666667 / 1000000"
      "''btcusdt''" sample_exchange None None False 0 "[]" sample_exchange "3 / 10000" "''TP''"]
  by (simp add: paper_engine_def sample_state_def sample_exchange_def empty_ledger_def
        has_open_bot_position_def upper_def strip_def to_upper_def is_space_def or_default_def)

text \<open>
  The claim as first stated fails inside the tolerance of the solvency check: with paper
  balance 5, price 0.0003 and quantity 16666.666667 the entry is worth 5.0000000001, it
  goes through, the debit is 5 and not \<open>price * qty\<close>, and closing at the entry price
  leaves 5.0000000001 and not 5.
\<close>

theorem paper_round_trip_counterexample:
  "paper_balance_usdt (st (paper_engine 5 (3 / 10000))) = Some 5
   \<and> (3 / 10000 :: real) * (16666666667 / 1000000) = 50000000001 / 10000000000
   \<and> snd (execute_entry (paper_engine 5 (3 / 10000)) sample_exchange
          ''BTCUSDT'' (3 / 10000) (16666666667 / 1000000) None None False 0 []) = None
   \<and> map fst (open_positions (positions (fst (execute_entry (paper_engine 5 (3 / 10000))
          sample_exchange ''BTCUSDT'' (3 / 10000) (16666666667 / 1000000) None None False 0 []))))
        = [''p1'']
   \<and> paper_balance_usdt (st (fst (execute_entry (paper_engine 5 (3 / 10000)) sample_exchange
          ''BTCUSDT'' (3 / 10000) (16666666667 / 1000000) None None False 0 []))) = Some 0
   \<and> paper_balance_usdt (st (execute_close
         (fst (execute_entry (paper_engine 5 (3 / 10000)) sample_exchange
            ''BTCUSDT'' (3 / 10000) (16666666667 / 1000000) None None False 0 []))
         sample_exchange ''p1'' (3 / 10000) ''TP'')) = Some (50000000001 / 10000000000)
   \<and> Some (50000000001 / 10000000000 :: real) \<noteq> Some 5"
proof -
  have h: "paper_mode (paper_engine 5 (3 / 10000))" "(0::real) < 3 / 10000"
    "(0::real) < 16666666667 / 1000000" "strip (upper ''BTCUSDT'') \<noteq> []"
    "\<not> has_open_bot_position (positions (paper_engine 5 (3 / 10000))) (strip (upper ''BTCUSDT''))"
    "3 / 10000 * (16666666667 / 1000000)
       \<le> or_default (paper_balance_usdt (st (paper_engine 5 (3 / 10000)))) 0 + 1 / 10 ^ 9"
    by (simp_all add: paper_engine_def sample_state_def empty_ledger_def has_open_bot_position_def
          upper_def strip_def to_upper_def is_space_def or_default_def)
  have b: "or_default (paper_balance_usdt (st (paper_engine 5 (3 / 10000)))) 0 = 5"
    "paper_balance_usdt (st (paper_engine 5 (3 / 10000))) = Some 5"
    by (simp_all add: paper_engine_def)
  have id: "ex_new_id sample_exchange = ''p1''" by (simp add: sample_exchange_def)
  note e = paper_entry_opens[OF h, of sample_exchange None None False 0 "[]"]
  note t = paper_entry_then_close(1)[OF h, of sample_exchange None None False 0 "[]"]
    paper_entry_then_close(2)[OF h, of sample_exchange None None False 0 "[]"]
    paper_entry_then_close(4)[OF h, of sample_exchange None None False 0 "[]"
      sample_exchange "3 / 10000" "''TP''"]
  have keys: "map fst (open_positions (positions (fst (execute_entry (paper_engine 5 (3 / 10000))
          sample_exchange ''BTCUSDT'' (3 / 10000) (16666666667 / 1000000) None None False 0 []))))
        = [''p1'']"
    unfolding e by (simp add: paper_engine_def empty_ledger_def id)
  show ?thesis
    using t keys by (simp add: b id)
qed

subsection \<open>The duplicate check of the entry path\<close>

lemma open_position_duplicate:
  assumes "arg_source a = ''bot''" "has_open_bot_position L (strip (upper (arg_symbol a)))"
  shows "\<exists>msg. open_position c L a = Inl (ValueError msg)"
  using assms by (simp add: open_position_def Let_def)

lemma bots_survive_tick:
  assumes "p \<in> set (get_open_positions L)" "symbol p = n" "source p = ''bot''"
  shows "filter (\<lambda>p. symbol p = n \<and> source p = ''bot'') (get_open_positions (update_price L s lp)) \<noteq> []"
proof -
  from assms(1) obtain i where i: "(i, p) \<in> set (open_positions L)"
    by (auto simp: get_open_positions_def)
  have "\<exists>p'. p' \<in> set (get_open_positions (update_price L s lp)) \<and> symbol p' = n \<and> source p' = ''bot''"
  proof (cases "lp \<le> 0 \<or> strip (upper s) = []")
    case True
    then have "update_price L s lp = L" by (auto simp: update_price_def Let_def)
    with assms show ?thesis by auto
  next
    case False
    then have "(i, tick_pos (strip (upper s)) lp p) \<in> set (open_positions (update_price L s lp))"
      using i by (auto simp: update_price_tick_pos intro!: rev_image_eqI[of "(i, p)"])
    then have "tick_pos (strip (upper s)) lp p \<in> set (get_open_positions (update_price L s lp))"
      by (auto simp: get_open_positions_def intro!: rev_image_eqI)
    moreover have "symbol (tick_pos (strip (upper s)) lp p) = n"
      "source (tick_pos (strip (upper s)) lp p) = ''bot''"
      using assms by (simp_all add: tick_pos_def update_pos_fields)
    ultimately show ?thesis by blast
  qed
  then show ?thesis by (auto simp: filter_empty_conv)
qed

lemma apply_ai_decision_duplicate:
  assumes act: "d_action d = ''ENTRY''"
    and held: "\<exists>p \<in> set (get_open_positions (positions e)). symbol p = upper (d_symbol d) \<and> source p = ''bot''"
  shows "apply_ai_decision e ex d = (e, None) \<and> upper (d_symbol d) = []
       \<or> apply_ai_decision e ex d = (e, Some ''NO_PRICE'')
       \<or> (\<exists>lp. apply_ai_decision e ex d = (tick_and_exits e ex (upper (d_symbol d)) lp, Some ''RISK_BLOCK'')
              \<or> apply_ai_decision e ex d
                   = (tick_and_exits e ex (upper (d_symbol d)) lp, Some ''DUPLICATE_SYMBOL''))"
proof -
  let ?n = "upper (d_symbol d)"
  let ?lp = "or_default (map_of (prices e) ?n) 0"
  let ?e2 = "tick_and_exits e ex ?n ?lp"
  let ?all = "get_open_positions (update_price (positions e) ?n ?lp)"
  let ?bots = "filter (\<lambda>p. symbol p = ?n \<and> source p = ''bot'') ?all"
  from held obtain p where "p \<in> set (get_open_positions (positions e))" "symbol p = ?n" "source p = ''bot''"
    by blast
  then have bots: "?bots \<noteq> []" by (rule bots_survive_tick)
  have ne: "''EXIT'' \<noteq> ''ENTRY''" by simp
  show ?thesis
  proof (cases "?n = []")
    case True
    then show ?thesis by (simp add: apply_ai_decision_def Let_def)
  next
    case n: False
    show ?thesis
    proof (cases "?lp \<le> 0")
      case True
      with n show ?thesis by (simp add: apply_ai_decision_def Let_def)
    next
      case l: False
      show ?thesis
      proof (cases "fst (check_new_position (risk ?e2) (ex_now ex) ?n ?all)")
        case True
        with n l act bots have "apply_ai_decision e ex d = (?e2, Some ''DUPLICATE_SYMBOL'')"
          by (simp add: apply_ai_decision_def Let_def)
        then show ?thesis by blast
      next
        case False
        with n l act bots have "apply_ai_decision e ex d = (?e2, Some ''RISK_BLOCK'')"
          by (simp add: apply_ai_decision_def Let_def)
        then show ?thesis by blast
      qed
    qed
  qed
qed

lemma holding_engine_positions:
  "positions holding_engine = \<lparr>open_positions = [(''p1'', sample_position)], closed_positions = []\<rparr>"
  by (simp add: holding_engine_def sample_eval)

lemma holding_engine_duplicate:
  "apply_ai_decision holding_engine sample_exchange entry_decision
     = (holding_engine, Some ''DUPLICATE_SYMBOL'')"
proof -
  have n: "upper (d_symbol entry_decision) = ''BTCUSDT''"
    by (simp add: entry_decision_def upper_def to_upper_def)
  have lp: "or_default (map_of (prices holding_engine) ''BTCUSDT'') 0 = 100"
    by (simp add: holding_engine_def paper_engine_def or_default_def)
  have up: "update_price (positions holding_engine) ''BTCUSDT'' 100 = positions holding_engine"
    unfolding holding_engine_positions
    by (simp add: sample_position_eq)
       (simp add: update_price_def update_pos_def upper_def strip_def to_upper_def is_space_def Let_def)
  have recs: "check_exit_recommendations (positions holding_engine) ''BTCUSDT'' 100 True = []"
    unfolding holding_engine_positions
    by (simp add: sample_position_eq)
       (simp add: check_exit_recommendations_def exit_rec_def List.map_filter_def upper_def strip_def
          to_upper_def is_space_def Let_def)
  have te: "tick_and_exits holding_engine sample_exchange ''BTCUSDT'' 100 = holding_engine"
    by (simp add: tick_and_exits_def Let_def up recs close_all_def)
  have all: "get_open_positions (positions holding_engine) = [sample_position]"
    by (simp add: holding_engine_positions get_open_positions_def)
  have sp: "symbol sample_position = ''BTCUSDT''" "source sample_position = ''bot''"
    by (simp_all add: sample_position_eq)
  have rk: "fst (check_new_position (risk holding_engine) (ex_now sample_exchange) ''BTCUSDT'' [sample_position])"
    by (simp add: check_new_position_def holding_engine_def paper_engine_def sample_risk_def
          sample_exchange_def sp upper_def strip_def to_upper_def is_space_def Let_def)
  have act: "d_action entry_decision = ''ENTRY''" by (simp add: entry_decision_def)
  show ?thesis
    unfolding apply_ai_decision_def Let_def n lp up te all act
    using rk by (simp add: sp)
qed

subsection \<open>One open bot position per symbol\<close>

text \<open>
  Claim C3. In every ledger state reached from the empty ledger by open, tick and close
  calls, two open bot-sourced entries on the same symbol are the same entry.
  \<open>open_position\<close> raises \<open>ValueError\<close> for a bot position when one is already open on the
  symbol. The engine's entry path opens nothing when a bot position is held on the
  decision's symbol: it stops with \<open>NO_PRICE\<close>, \<open>RISK_BLOCK\<close> or \<open>DUPLICATE_SYMBOL\<close> and the
  ids of the open set do not grow. \<open>_apply_ai_decision\<close> maintains the invariant.
\<close>

theorem one_open_bot_position_per_symbol:
  "(\<forall>i p j r. (i, p) \<in> set (open_positions (run_ops ops))
        \<and> (j, r) \<in> set (open_positions (run_ops ops))
        \<and> source p = ''bot'' \<and> source r = ''bot'' \<and> symbol p = symbol r
      \<longrightarrow> i = j \<and> p = r)
   \<and> (arg_source a = ''bot'' \<and> has_open_bot_position L (strip (upper (arg_symbol a)))
      \<longrightarrow> (\<exists>msg. open_position c L a = Inl (ValueError msg)))
   \<and> (d_action d = ''ENTRY''
        \<and> (\<exists>p \<in> set (get_open_positions (positions e)).
               symbol p = upper (d_symbol d) \<and> source p = ''bot'')
      \<longrightarrow> fst ` set (open_positions (positions (fst (apply_ai_decision e ex d))))
            \<subseteq> fst ` set (open_positions (positions e))
          \<and> (upper (d_symbol d) \<noteq> [] \<longrightarrow>
               snd (apply_ai_decision e ex d)
                 \<in> {Some ''NO_PRICE'', Some ''RISK_BLOCK'', Some ''DUPLICATE_SYMBOL''}))
   \<and> (wf_ledger (positions e) \<and> one_bot_per_symbol (positions e)
      \<longrightarrow> wf_ledger (positions (fst (apply_ai_decision e ex d)))
          \<and> one_bot_per_symbol (positions (fst (apply_ai_decision e ex d))))"
proof (intro conjI allI impI)
  fix i p j r
  assume a: "(i, p) \<in> set (open_positions (run_ops ops))
        \<and> (j, r) \<in> set (open_positions (run_ops ops))
        \<and> source p = ''bot'' \<and> source r = ''bot'' \<and> symbol p = symbol r"
  with one_bot_run_ops[of ops] show ij: "i = j" unfolding one_bot_per_symbol_def by blast
  from wf_run_ops[of ops] have "distinct (map fst (open_positions (run_ops ops)))"
    unfolding wf_ledger_def by blast
  with a ij show "p = r" by (metis eq_key_imp_eq_value)
next
  assume "arg_source a = ''bot'' \<and> has_open_bot_position L (strip (upper (arg_symbol a)))"
  then show "\<exists>msg. open_position c L a = Inl (ValueError msg)"
    using open_position_duplicate by blast
next
  assume h: "d_action d = ''ENTRY''
        \<and> (\<exists>p \<in> set (get_open_positions (positions e)).
               symbol p = upper (d_symbol d) \<and> source p = ''bot'')"
  note c = apply_ai_decision_duplicate[OF conjunct1[OF h] conjunct2[OF h], of ex]
  from c show "fst ` set (open_positions (positions (fst (apply_ai_decision e ex d))))
            \<subseteq> fst ` set (open_positions (positions e))"
  proof (elim disjE exE conjE)
    fix lp assume "apply_ai_decision e ex d = (tick_and_exits e ex (upper (d_symbol d)) lp, Some ''RISK_BLOCK'')"
    then show ?thesis using tick_and_exits_keys[of e ex "upper (d_symbol d)" lp] by simp
  next
    fix lp assume "apply_ai_decision e ex d = (tick_and_exits e ex (upper (d_symbol d)) lp, Some ''DUPLICATE_SYMBOL'')"
    then show ?thesis using tick_and_exits_keys[of e ex "upper (d_symbol d)" lp] by simp
  qed simp_all
  { assume "upper (d_symbol d) \<noteq> []"
    with c show "snd (apply_ai_decision e ex d)
                 \<in> {Some ''NO_PRICE'', Some ''RISK_BLOCK'', Some ''DUPLICATE_SYMBOL''}"
      by (elim disjE exE conjE) simp_all }
next
  assume "wf_ledger (positions e) \<and> one_bot_per_symbol (positions e)"
  then show "wf_ledger (positions (fst (apply_ai_decision e ex d)))"
    "one_bot_per_symbol (positions (fst (apply_ai_decision e ex d)))"
    using apply_ai_decision_inv by blast+
qed

theorem one_open_bot_position_per_symbol_witness:
  "open_positions (run_ops [OpOpen default_settings sample_args,
        OpOpen default_settings (sample_args\<lparr>arg_new_id := ''p2''\<rparr>)]) = [(''p1'', sample_position)]
   \<and> source sample_position = ''bot''
   \<and> arg_source (sample_args\<lparr>arg_new_id := ''p2''\<rparr>) = ''bot''
   \<and> has_open_bot_position (positions holding_engine)
        (strip (upper (arg_symbol (sample_args\<lparr>arg_new_id := ''p2''\<rparr>))))
   \<and> open_position default_settings (positions holding_engine) (sample_args\<lparr>arg_new_id := ''p2''\<rparr>)
        = Inl (ValueError ''Bot already has open position on BTCUSDT'')
   \<and> d_action entry_decision = ''ENTRY''
   \<and> get_open_positions (positions holding_engine) = [sample_position]
   \<and> symbol sample_position = upper (d_symbol entry_decision)
   \<and> apply_ai_decision holding_engine sample_exchange entry_decision
        = (holding_engine, Some ''DUPLICATE_SYMBOL'')
   \<and> wf_ledger (positions holding_engine) \<and> one_bot_per_symbol (positions holding_engine)
   \<and> wf_ledger (positions (fst (apply_ai_decision holding_engine sample_exchange entry_decision)))
   \<and> one_bot_per_symbol (positions (fst (apply_ai_decision holding_engine sample_exchange entry_decision)))"
proof -
  have w: "wf_ledger (positions holding_engine)" "one_bot_per_symbol (positions holding_engine)"
    by (simp_all add: holding_engine_def wf_run_ops one_bot_run_ops)
  have two: "open_positions (run_ops [OpOpen default_settings sample_args,
        OpOpen default_settings (sample_args\<lparr>arg_new_id := ''p2''\<rparr>)]) = [(''p1'', sample_position)]"
    by (simp add: eval_defs)
  have dup: "open_position default_settings (positions holding_engine) (sample_args\<lparr>arg_new_id := ''p2''\<rparr>)
        = Inl (ValueError ''Bot already has open position on BTCUSDT'')"
    unfolding holding_engine_positions by (simp add: eval_defs)
  have hb: "has_open_bot_position (positions holding_engine)
        (strip (upper (arg_symbol (sample_args\<lparr>arg_new_id := ''p2''\<rparr>))))"
    unfolding holding_engine_positions by (simp add: eval_defs)
  have misc: "source sample_position = ''bot''" "arg_source (sample_args\<lparr>arg_new_id := ''p2''\<rparr>) = ''bot''"
    "d_action entry_decision = ''ENTRY''" "get_open_positions (positions holding_engine) = [sample_position]"
    "symbol sample_position = upper (d_symbol entry_decision)"
    by (simp_all add: sample_position_eq sample_args_def entry_decision_def holding_engine_positions
          get_open_positions_def upper_def to_upper_def)
  show ?thesis
    using one_open_bot_position_per_symbol[of
        "[OpOpen default_settings sample_args, OpOpen default_settings (sample_args\<lparr>arg_new_id := ''p2''\<rparr>)]"
        "sample_args\<lparr>arg_new_id := ''p2''\<rparr>" "positions holding_engine" default_settings
        entry_decision holding_engine sample_exchange]
      w two dup hb misc holding_engine_duplicate
    by simp
qed

section \<open>Properties of the reconnect backoff\<close>

lemma after_disconnect_forced:
  "running m \<Longrightarrow> force_reconnect_event m \<Longrightarrow>
   after_disconnect m = (m\<lparr>force_reconnect_event := False, reconnect_index := 0\<rparr>, Reconnect_now)"
  by (simp add: after_disconnect_def)

lemma after_disconnect_backoff:
  "running m \<Longrightarrow> \<not> force_reconnect_event m \<Longrightarrow> ws_backoff_sec m \<noteq> [] \<Longrightarrow>
   after_disconnect m =
     (m\<lparr>reconnect_index := reconnect_index m + 1\<rparr>,
      Sleep (ws_backoff_sec m ! min (reconnect_index m) (length (ws_backoff_sec m) - 1)))"
  by (simp add: after_disconnect_def Let_def)

lemma update_symbols_flag:
  "force_reconnect_event (state_of (update_symbols m syms)) = force_reconnect_event m
   \<and> reconnect_index (state_of (update_symbols m syms)) = reconnect_index m
   \<and> running (state_of (update_symbols m syms)) = running m
   \<and> ws_backoff_sec (state_of (update_symbols m syms)) = ws_backoff_sec m"
  by (simp add: update_symbols_def Let_def)

lemma ws_run_snoc: "ws_run m (evs @ [ev]) = ws_step (ws_run m evs) ev"
  by (simp add: ws_run_def)

lemma drops_run:
  assumes "running m" "\<not> force_reconnect_event m" "ws_backoff_sec m \<noteq> []"
  shows "ws_run m (replicate k Dropped) =
           (m\<lparr>reconnect_index := reconnect_index m + k\<rparr>,
            rev (map (\<lambda>j. Sleep (ws_backoff_sec m ! min j (length (ws_backoff_sec m) - 1)))
                   [reconnect_index m ..< reconnect_index m + k]))"
proof (induction k)
  case 0
  show ?case by (simp add: ws_run_def)
next
  case (Suc k)
  have "replicate (Suc k) Dropped = replicate k Dropped @ [Dropped]"
    by (simp add: replicate_append_same)
  then have "ws_run m (replicate (Suc k) Dropped) = ws_step (ws_run m (replicate k Dropped)) Dropped"
    by (simp only: ws_run_snoc)
  also have "\<dots> = ws_step (m\<lparr>reconnect_index := reconnect_index m + k\<rparr>,
            rev (map (\<lambda>j. Sleep (ws_backoff_sec m ! min j (length (ws_backoff_sec m) - 1)))
                   [reconnect_index m ..< reconnect_index m + k])) Dropped"
    by (simp only: Suc.IH)
  also have "\<dots> = (m\<lparr>reconnect_index := reconnect_index m + Suc k\<rparr>,
            rev (map (\<lambda>j. Sleep (ws_backoff_sec m ! min j (length (ws_backoff_sec m) - 1)))
                   [reconnect_index m ..< reconnect_index m + Suc k]))"
    using assms by (simp add: after_disconnect_def Let_def)
  finally show ?case .
qed

text \<open>
  What holds of the backoff: \<open>_on_open\<close> sets the index to 0; a raised reconnect flag
  makes the loop set the index to 0 and reconnect without a delay; otherwise a running
  loop with a non-empty delay list sleeps \<open>ws_backoff_sec[min(index, len - 1)]\<close> and
  increments the index, so \<open>k\<close> consecutive failures from index 0 sleep the first \<open>k\<close>
  configured delays in order, repeating the last one; after two failures and one
  successful connection the index is 0.
\<close>

lemma backoff_delay_sequence:
  "reconnect_index (on_open m) = 0
   \<and> (running m \<and> force_reconnect_event m \<longrightarrow>
        snd (after_disconnect m) = Reconnect_now
        \<and> reconnect_index (fst (after_disconnect m)) = 0
        \<and> \<not> force_reconnect_event (fst (after_disconnect m)))
   \<and> (running m \<and> \<not> force_reconnect_event m \<and> ws_backoff_sec m \<noteq> [] \<longrightarrow>
        snd (after_disconnect m)
          = Sleep (ws_backoff_sec m ! min (reconnect_index m) (length (ws_backoff_sec m) - 1))
        \<and> reconnect_index (fst (after_disconnect m)) = reconnect_index m + 1
        \<and> (reconnect_index m < length (ws_backoff_sec m) \<longrightarrow>
             snd (after_disconnect m) = Sleep (ws_backoff_sec m ! reconnect_index m))
        \<and> (length (ws_backoff_sec m) - 1 \<le> reconnect_index m \<longrightarrow>
             snd (after_disconnect m) = Sleep (last (ws_backoff_sec m)))
        \<and> (reconnect_index m = 0 \<longrightarrow>
             rev (snd (ws_run m (replicate k Dropped)))
               = map (\<lambda>j. Sleep (ws_backoff_sec m ! min j (length (ws_backoff_sec m) - 1))) [0 ..< k]))
   \<and> reconnect_index (fst (ws_run m [Dropped, Dropped, Opened])) = 0"
proof (intro conjI impI)
  show "reconnect_index (on_open m) = 0" by (simp add: on_open_def)
next
  assume a: "running m \<and> force_reconnect_event m"
  then show "snd (after_disconnect m) = Reconnect_now"
    "reconnect_index (fst (after_disconnect m)) = 0"
    "\<not> force_reconnect_event (fst (after_disconnect m))"
    by (simp_all add: after_disconnect_forced)
next
  assume a: "running m \<and> \<not> force_reconnect_event m \<and> ws_backoff_sec m \<noteq> []"
  then have e: "after_disconnect m =
     (m\<lparr>reconnect_index := reconnect_index m + 1\<rparr>,
      Sleep (ws_backoff_sec m ! min (reconnect_index m) (length (ws_backoff_sec m) - 1)))"
    by (simp add: after_disconnect_backoff)
  show "snd (after_disconnect m)
          = Sleep (ws_backoff_sec m ! min (reconnect_index m) (length (ws_backoff_sec m) - 1))"
    by (simp add: e)
  show "reconnect_index (fst (after_disconnect m)) = reconnect_index m + 1" by (simp add: e)
  { assume "reconnect_index m < length (ws_backoff_sec m)"
    then have "min (reconnect_index m) (length (ws_backoff_sec m) - 1) = reconnect_index m" by simp
    then show "snd (after_disconnect m) = Sleep (ws_backoff_sec m ! reconnect_index m)"
      by (simp add: e) }
  { assume "length (ws_backoff_sec m) - 1 \<le> reconnect_index m"
    then have "min (reconnect_index m) (length (ws_backoff_sec m) - 1) = length (ws_backoff_sec m) - 1"
      by simp
    then show "snd (after_disconnect m) = Sleep (last (ws_backoff_sec m))"
      using a by (simp add: e last_conv_nth) }
  { assume z: "reconnect_index m = 0"
    from a have "ws_run m (replicate k Dropped) =
           (m\<lparr>reconnect_index := reconnect_index m + k\<rparr>,
            rev (map (\<lambda>j. Sleep (ws_backoff_sec m ! min j (length (ws_backoff_sec m) - 1)))
                   [reconnect_index m ..< reconnect_index m + k]))"
      by (intro drops_run) simp_all
    then show "rev (snd (ws_run m (replicate k Dropped)))
               = map (\<lambda>j. Sleep (ws_backoff_sec m ! min j (length (ws_backoff_sec m) - 1))) [0 ..< k]"
      by (simp add: z) }
next
  show "reconnect_index (fst (ws_run m [Dropped, Dropped, Opened])) = 0"
    by (simp add: ws_run_def on_open_def split: prod.splits)
qed

lemma backoff_delay_sequence_sample:
  "after_disconnect (sample_stream\<lparr>reconnect_index := 3, force_reconnect_event := True\<rparr>)
       = (sample_stream\<lparr>reconnect_index := 0, force_reconnect_event := False\<rparr>, Reconnect_now)
   \<and> after_disconnect sample_stream = (sample_stream\<lparr>reconnect_index := 1\<rparr>, Sleep 2)
   \<and> after_disconnect (sample_stream\<lparr>reconnect_index := 7\<rparr>)
       = (sample_stream\<lparr>reconnect_index := 8\<rparr>, Sleep 15)
   \<and> rev (snd (ws_run sample_stream (replicate 6 Dropped)))
       = [Sleep 2, Sleep 5, Sleep 10, Sleep 15, Sleep 15, Sleep 15]"
  using backoff_delay_sequence[of sample_stream 6]
  by (simp add: sample_stream_def after_disconnect_def Let_def upt_rec numeral_nat)

text \<open>
  Claim C5 on the code. A call of \<open>update_symbols\<close> that changes the watch set does not
  return and never raises the reconnect flag: on a stream at backoff index 3 watching
  BTCUSDT, \<open>update_symbols(["ethusdt"])\<close> leaves the flag down and the index at 3, and
  the next failure sleeps the capped delay 15 and moves the index to 4 instead of
  resetting it to 0. For every state and argument the call leaves the flag and the
  index as they were.
\<close>

theorem watch_set_change_leaves_backoff_index:
  "update_symbols (sample_stream\<lparr>reconnect_index := 3\<rparr>) [''ethusdt'']
     = Deadlocked (sample_stream\<lparr>reconnect_index := 3, watch_symbols := [''ETHUSDT'']\<rparr>)
   \<and> force_reconnect_event (fst (ws_run (sample_stream\<lparr>reconnect_index := 3\<rparr>)
        [Watch [''ethusdt'']])) = False
   \<and> reconnect_index (fst (ws_run (sample_stream\<lparr>reconnect_index := 3\<rparr>)
        [Watch [''ethusdt'']])) = 3
   \<and> snd (ws_run (sample_stream\<lparr>reconnect_index := 3\<rparr>) [Watch [''ethusdt''], Dropped])
        = [Sleep 15]
   \<and> reconnect_index (fst (ws_run (sample_stream\<lparr>reconnect_index := 3\<rparr>)
        [Watch [''ethusdt''], Dropped])) = 4
   \<and> force_reconnect_event (state_of (update_symbols m syms)) = force_reconnect_event m
   \<and> reconnect_index (state_of (update_symbols m syms)) = reconnect_index m"
proof (intro conjI)
  show "force_reconnect_event (state_of (update_symbols m syms)) = force_reconnect_event m"
    "reconnect_index (state_of (update_symbols m syms)) = reconnect_index m"
    using update_symbols_flag by blast+
qed (simp_all add: ws_run_def sample_stream_def update_symbols_def after_disconnect_def upper_def
       strip_def to_upper_def is_space_def Let_def)

section \<open>Properties of the decision gate\<close>

lemma fresh_decision_ignores_signals_delta:
  "fresh_decision (conf\<lparr>ai_warmup_relax_signals_delta := x\<rparr>) tnow boot n out
     = fresh_decision conf tnow boot n out"
  by (cases out) (simp_all add: fresh_decision_def Let_def)

lemma fresh_decision_entry_iff:
  "d_action (fresh_decision conf tnow boot n (Some ou)) = ''ENTRY'' \<longleftrightarrow>
     upper (case out_signal ou of None \<Rightarrow> ''HOLD'' | Some g \<Rightarrow> if g = [] then ''HOLD'' else g)
        \<in> {''ENTRY'', ''BUY'', ''LONG''}
     \<and> (if tnow - boot < or_default (ai_warmup_relax_sec conf) 300
         then max 0 (or_default (ai_min_score conf) (2/5)
                     - or_default (ai_warmup_relax_score_delta conf) (1/10))
         else or_default (ai_min_score conf) (2/5)) \<le> or_default (out_score ou) 0
     \<and> or_default_int (ai_min_valid_signals conf) 1 \<le> 1"
  unfolding fresh_decision_def Let_def option.case
  by (simp only: split: if_split) (auto simp: not_less)

text \<open>
  Claim C9 on the code. With \<open>min_valid_signals = 2\<close> (and the unread
  \<open>warmup_relax_signals_delta = 1\<close>), ten seconds after engine start, an entry signal of
  score 0.9 is held back with \<open>NOT_ENOUGH_VALID_SIGNALS\<close>, exactly as it is after the
  warmup window: the signal-count requirement is not relaxed, and the decision does not
  depend on \<open>warmup_relax_signals_delta\<close>. The score bar is relaxed: a score of 0.35
  enters during warmup and is below the minimum after it.
\<close>

theorem warmup_keeps_signal_count_requirement:
  "(10::real) - boot_ts fresh_orchestrator < or_default (ai_warmup_relax_sec strict_conf) 300
   \<and> d_action (snd (evaluate_symbol strict_conf [(''BTCUSDT'', entry_output)] 10
                      fresh_orchestrator ''BTCUSDT'')) = ''HOLD''
   \<and> d_reject_reason (snd (evaluate_symbol strict_conf [(''BTCUSDT'', entry_output)] 10
                      fresh_orchestrator ''BTCUSDT'')) = Some ''NOT_ENOUGH_VALID_SIGNALS''
   \<and> d_reject_reason (snd (evaluate_symbol strict_conf [(''BTCUSDT'', entry_output)] 1000
                      fresh_orchestrator ''BTCUSDT'')) = Some ''NOT_ENOUGH_VALID_SIGNALS''
   \<and> fresh_decision (conf\<lparr>ai_warmup_relax_signals_delta := x\<rparr>) tnow boot n out
        = fresh_decision conf tnow boot n out
   \<and> d_action (fresh_decision (strict_conf\<lparr>ai_min_valid_signals := Some 1\<rparr>) 10 0 ''BTCUSDT''
        (Some (entry_output\<lparr>out_score := Some (35/100)\<rparr>))) = ''ENTRY''
   \<and> d_reject_reason (fresh_decision (strict_conf\<lparr>ai_min_valid_signals := Some 1\<rparr>) 1000 0
        ''BTCUSDT'' (Some (entry_output\<lparr>out_score := Some (35/100)\<rparr>))) = Some ''SCORE_BELOW_MIN''"
proof (intro conjI)
  show "fresh_decision (conf\<lparr>ai_warmup_relax_signals_delta := x\<rparr>) tnow boot n out
        = fresh_decision conf tnow boot n out"
    by (rule fresh_decision_ignores_signals_delta)
qed (simp_all add: evaluate_symbol_def fresh_decision_def strict_conf_def fresh_orchestrator_def
       entry_output_def or_default_def or_default_int_def truthy_def upper_def strip_def
       to_upper_def is_space_def Let_def)

end
